theory Spec2Isabelle
  imports Complex_Main "HOL-Library.Multiset"
begin

section \<open>Numbers\<close>

text \<open>
  The Go sources compute with \<open>float64\<close> and \<open>int\<close>. A \<open>float64\<close> is idealised as a
  \<^typ>\<open>real\<close>: comparisons and the arithmetic of finite values are those of the source,
  while rounding, overflow, NaN and the infinities are outside the model. Go's \<open>int\<close> is
  \<^typ>\<open>int\<close>; no claim treated here depends on 64-bit wrap-around.

  The literal \<open>1e-10\<close>, which the sources repeat at every degeneracy test, is \<open>epsilon\<close>.
\<close>

definition epsilon :: real where
  "epsilon = 1 / 10 ^ 10"

section \<open>Vector3 (vector.go)\<close>

record Vector3 =
  X :: real
  Y :: real
  Z :: real

definition NewVector3 :: "real \<Rightarrow> real \<Rightarrow> real \<Rightarrow> Vector3" where
  "NewVector3 x y z = \<lparr>X = x, Y = y, Z = z\<rparr>"

definition Add :: "Vector3 \<Rightarrow> Vector3 \<Rightarrow> Vector3" where
  "Add v other = \<lparr>X = X v + X other, Y = Y v + Y other, Z = Z v + Z other\<rparr>"

definition Sub :: "Vector3 \<Rightarrow> Vector3 \<Rightarrow> Vector3" where
  "Sub v other = \<lparr>X = X v - X other, Y = Y v - Y other, Z = Z v - Z other\<rparr>"

definition Scale :: "Vector3 \<Rightarrow> real \<Rightarrow> Vector3" where
  "Scale v s = \<lparr>X = X v * s, Y = Y v * s, Z = Z v * s\<rparr>"

definition Dot :: "Vector3 \<Rightarrow> Vector3 \<Rightarrow> real" where
  "Dot v other = X v * X other + Y v * Y other + Z v * Z other"

definition Cross :: "Vector3 \<Rightarrow> Vector3 \<Rightarrow> Vector3" where
  "Cross v other =
     \<lparr>X = Y v * Z other - Z v * Y other,
      Y = Z v * X other - X v * Z other,
      Z = X v * Y other - Y v * X other\<rparr>"

definition Length :: "Vector3 \<Rightarrow> real" where
  "Length v = sqrt (X v * X v + Y v * Y v + Z v * Z v)"

definition Normalize :: "Vector3 \<Rightarrow> Vector3" where
  "Normalize v =
     (let length = Length v in
      if length < epsilon then \<lparr>X = 0, Y = 0, Z = 0\<rparr>
      else Scale v (1 / length))"

section \<open>Matrix4 (matrix.go)\<close>

text \<open>\<open>Matrix4\<close> is \<open>[16]float64\<close>, row-major; \<open>mk\<close> reads the entry at index \<open>k\<close>.\<close>

datatype Matrix4 = Matrix4
  (m0: real) (m1: real) (m2: real) (m3: real)
  (m4: real) (m5: real) (m6: real) (m7: real)
  (m8: real) (m9: real) (m10: real) (m11: real)
  (m12: real) (m13: real) (m14: real) (m15: real)

definition Identity :: Matrix4 where
  "Identity = Matrix4
     1 0 0 0
     0 1 0 0
     0 0 1 0
     0 0 0 1"

definition TransformVector :: "Matrix4 \<Rightarrow> Vector3 \<Rightarrow> Vector3" where
  "TransformVector m v =
     (let x = m0 m * X v + m1 m * Y v + m2 m * Z v + m3 m;
          y = m4 m * X v + m5 m * Y v + m6 m * Z v + m7 m;
          z = m8 m * X v + m9 m * Y v + m10 m * Z v + m11 m;
          w = m12 m * X v + m13 m * Y v + m14 m * Z v + m15 m
      in if \<bar>w\<bar> > epsilon \<and> \<bar>w - 1\<bar> > epsilon
         then \<lparr>X = x / w, Y = y / w, Z = z / w\<rparr>
         else \<lparr>X = x, Y = y, Z = z\<rparr>)"

text \<open>
  \<open>math.Tan\<close> is \<^const>\<open>tan\<close>. Past the guard the divisors \<open>aspect\<close> and \<open>near - far\<close>
  are nonzero; \<open>math.Tan(fov/2.0)\<close> is never exactly zero on a nonzero \<open>float64\<close>, while
  \<^const>\<open>tan\<close> vanishes at the multiples of \<open>pi\<close>, where the model's \<open>f\<close> is the \<open>0\<close> of
  HOL's division and not the huge value of the source.
\<close>

definition Perspective :: "real \<Rightarrow> real \<Rightarrow> real \<Rightarrow> real \<Rightarrow> Matrix4" where
  "Perspective fov aspect near far =
     (if \<bar>fov\<bar> < epsilon \<or> \<bar>aspect\<bar> < epsilon \<or> \<bar>far - near\<bar> < epsilon then Identity
      else
        let f = 1 / tan (fov / 2) in
        Matrix4
          (f / aspect) 0 0 0
          0 f 0 0
          0 0 ((far + near) / (near - far)) ((2 * far * near) / (near - far))
          0 0 (- 1) 0)"

definition LookAt :: "Vector3 \<Rightarrow> Vector3 \<Rightarrow> Vector3 \<Rightarrow> Matrix4" where
  "LookAt eye target up =
     (let forward0 = Normalize (Sub target eye);
          forward = (if Length forward0 < epsilon then \<lparr>X = 0, Y = 0, Z = 1\<rparr> else forward0);
          right0 = Normalize (Cross forward up);
          right =
            (if Length right0 < epsilon then
               (if \<bar>Y forward\<bar> < 9 / 10
                then Normalize (Cross forward \<lparr>X = 0, Y = 1, Z = 0\<rparr>)
                else Normalize (Cross forward \<lparr>X = 1, Y = 0, Z = 0\<rparr>))
             else right0);
          newUp = Normalize (Cross right forward)
      in Matrix4
           (X right) (Y right) (Z right) (- Dot right eye)
           (X newUp) (Y newUp) (Z newUp) (- Dot newUp eye)
           (- X forward) (- Y forward) (- Z forward) (Dot forward eye)
           0 0 0 1)"

section \<open>Triangle (mesh.go)\<close>

record Triangle =
  V0 :: Vector3
  V1 :: Vector3
  V2 :: Vector3

definition Normal :: "Triangle \<Rightarrow> Vector3" where
  "Normal t =
     (let edge1 = Sub (V1 t) (V0 t);
          edge2 = Sub (V2 t) (V0 t);
          normal = Cross edge1 edge2
      in if Length normal < epsilon then \<lparr>X = 0, Y = 1, Z = 0\<rparr>
         else Normalize normal)"

definition Center :: "Triangle \<Rightarrow> Vector3" where
  "Center t = Scale (Add (Add (V0 t) (V1 t)) (V2 t)) (1 / 3)"

section \<open>Mesh (mesh.go)\<close>

record Mesh =
  Vertices :: "Vector3 list"
  Triangles :: "Triangle list"

section \<open>Renderer (renderer.go)\<close>

record Camera =
  Position :: Vector3
  Target :: Vector3
  Up :: Vector3
  FOV :: real
  Near :: real
  Far :: real

definition NewCamera :: Camera where
  "NewCamera =
     \<lparr>Position = NewVector3 0 0 (- 5), Target = NewVector3 0 0 0, Up = NewVector3 0 1 0,
      FOV = 1, Near = 1 / 10, Far = 100\<rparr>"

text \<open>A colour is \<open>[3]float64\<close>. The position of a light is \<open>Position_light\<close>.\<close>

type_synonym Color3 = "real \<times> real \<times> real"

record Light =
  Position_light :: Vector3
  Color :: Color3
  Intensity :: real

datatype RenderMode = RenderWireframe | RenderFlat | RenderShaded

text \<open>
  The cairo surface and context of a renderer are an external drawing library. What a draw
  function does to the context is the sequence of calls it issues on it, so each draw
  function of the model returns that sequence, in the order of the calls.
\<close>

datatype cairo_call =
    Save
  | Restore
  | SetSourceRGB real real real
  | SetLineWidth real
  | SetLineJoinRound
  | MoveTo real real
  | LineTo real real
  | ClosePath
  | Stroke
  | Fill

record Renderer =
  Width :: int
  Height :: int
  Camera :: Camera
  Lights :: "Light list"
  RenderMode :: RenderMode
  Antialias :: bool

text \<open>
  \<open>NewRenderer\<close> also creates the surface and paints it black; those calls precede every
  draw function and are left out of the record.
\<close>

definition NewRenderer :: "int \<Rightarrow> int \<Rightarrow> Renderer" where
  "NewRenderer width height =
     \<lparr>Width = width, Height = height, Camera = NewCamera, Lights = [],
      RenderMode = RenderWireframe, Antialias = True\<rparr>"

definition ProjectToScreen :: "Renderer \<Rightarrow> Vector3 \<Rightarrow> real \<times> real \<times> real" where
  "ProjectToScreen r v =
     (let aspect = real_of_int (Width r) / real_of_int (Height r);
          view = LookAt (Position (Camera r)) (Target (Camera r)) (Up (Camera r));
          projection = Perspective (FOV (Camera r)) aspect (Near (Camera r)) (Far (Camera r));
          viewSpace = TransformVector view v;
          projected = TransformVector projection viewSpace;
          x = (X projected + 1) * real_of_int (Width r) / 2;
          y = (1 - Y projected) * real_of_int (Height r) / 2
      in (x, y, Z projected))"

definition CalculateLighting :: "Renderer \<Rightarrow> Vector3 \<Rightarrow> Vector3 \<Rightarrow> Color3 \<Rightarrow> Color3" where
  "CalculateLighting r position normal baseColor =
     (if length (Lights r) = 0 then baseColor
      else
        let ambient = (2 / 10, 2 / 10, 2 / 10) :: Color3;
            diffuse =
              fold (\<lambda>light (d0, d1, d2).
                      let lightDir = Normalize (Sub (Position_light light) position);
                          intensity = max 0 (Dot normal lightDir) * Intensity light
                      in case Color light of (c0, c1, c2) \<Rightarrow>
                           (d0 + c0 * intensity, d1 + c1 * intensity, d2 + c2 * intensity))
                   (Lights r) ((0, 0, 0) :: Color3)
        in case (ambient, diffuse, baseColor) of
             ((a0, a1, a2), (d0, d1, d2), (b0, b1, b2)) \<Rightarrow>
               (min 1 ((a0 + d0) * b0), min 1 ((a1 + d1) * b1), min 1 ((a2 + d2) * b2)))"

record triangleWithDepth =
  tri :: Triangle
  depth :: real
  color :: Color3

text \<open>
  \<open>sort.Slice(x, less)\<close> belongs to the Go library, not to the repository. The draw
  functions take it as the parameter \<open>sortSlice\<close> and hand it the comparison that the
  source hands it; the closure \<open>func(i, j int) bool\<close> of the source compares the elements
  at two indices, the \<open>lt\<close> of the model compares the two elements. When \<open>lt\<close> is a
  strict weak order the library promises a permutation of the slice in which no later
  element is \<open>lt\<close> an earlier one, and no stability.
\<close>

definition strict_weak_order :: "('a \<Rightarrow> 'a \<Rightarrow> bool) \<Rightarrow> bool" where
  "strict_weak_order lt =
     ((\<forall>a. \<not> lt a a) \<and>
      (\<forall>a b c. lt a b \<and> lt b c \<longrightarrow> lt a c) \<and>
      (\<forall>a b c. \<not> lt a b \<and> \<not> lt b c \<longrightarrow> \<not> lt a c))"

definition sort_Slice_contract ::
  "((triangleWithDepth \<Rightarrow> triangleWithDepth \<Rightarrow> bool)
      \<Rightarrow> triangleWithDepth list \<Rightarrow> triangleWithDepth list) \<Rightarrow> bool" where
  "sort_Slice_contract sortSlice =
     (\<forall>lt xs. strict_weak_order lt \<longrightarrow>
        mset (sortSlice lt xs) = mset xs \<and>
        sorted_wrt (\<lambda>a b. \<not> lt b a) (sortSlice lt xs))"

text \<open>
  Insertion sort by a comparison: one function that keeps the promise of \<open>sort.Slice\<close>,
  with which the draw functions can be run on a concrete mesh.
\<close>

fun insert_by :: "('a \<Rightarrow> 'a \<Rightarrow> bool) \<Rightarrow> 'a \<Rightarrow> 'a list \<Rightarrow> 'a list" where
  "insert_by lt x [] = [x]"
| "insert_by lt x (y # ys) = (if lt x y then x # y # ys else y # insert_by lt x ys)"

fun insertion_sort :: "('a \<Rightarrow> 'a \<Rightarrow> bool) \<Rightarrow> 'a list \<Rightarrow> 'a list" where
  "insertion_sort lt [] = []"
| "insertion_sort lt (x # xs) = insert_by lt x (insertion_sort lt xs)"

text \<open>The body of the loop of \<open>drawWireframe\<close>: the calls issued for one triangle.\<close>

definition drawWireframe_triangle :: "Renderer \<Rightarrow> Triangle \<Rightarrow> cairo_call list" where
  "drawWireframe_triangle r t =
     (case (ProjectToScreen r (V0 t), ProjectToScreen r (V1 t), ProjectToScreen r (V2 t)) of
        ((x0, y0, z0), (x1, y1, z1), (x2, y2, z2)) \<Rightarrow>
          if z0 < - 1 \<or> z0 > 1 \<or> z1 < - 1 \<or> z1 > 1 \<or> z2 < - 1 \<or> z2 > 1 then []
          else [MoveTo x0 y0, LineTo x1 y1, LineTo x2 y2, ClosePath, Stroke])"

definition drawWireframe :: "Renderer \<Rightarrow> Mesh \<Rightarrow> Color3 \<Rightarrow> cairo_call list" where
  "drawWireframe r mesh col =
     (if length (Triangles mesh) = 0 then []
      else case col of (c0, c1, c2) \<Rightarrow>
        [Save, SetSourceRGB c0 c1 c2, SetLineWidth (3 / 2), SetLineJoinRound]
        @ concat (map (drawWireframe_triangle r) (Triangles mesh))
        @ [Restore])"

text \<open>
  The first loop of \<open>drawFlat\<close>: \<open>None\<close> is the \<open>continue\<close> of the cull test, \<open>Some\<close> the
  element appended to \<open>triangles\<close>.
\<close>

definition drawFlat_entry :: "Renderer \<Rightarrow> Color3 \<Rightarrow> Triangle \<Rightarrow> triangleWithDepth option" where
  "drawFlat_entry r col t =
     (case (ProjectToScreen r (V0 t), ProjectToScreen r (V1 t), ProjectToScreen r (V2 t)) of
        ((_, _, z0), (_, _, z1), (_, _, z2)) \<Rightarrow>
          if z0 < - 1 \<or> z1 < - 1 \<or> z2 < - 1 then None
          else
            let avgDepth = (z0 + z1 + z2) / 3
            in Some \<lparr>tri = t, depth = avgDepth, color = col\<rparr>)"

definition drawFlat_triangles :: "Renderer \<Rightarrow> Mesh \<Rightarrow> Color3 \<Rightarrow> triangleWithDepth list" where
  "drawFlat_triangles r mesh col = List.map_filter (drawFlat_entry r col) (Triangles mesh)"

text \<open>The second loop of \<open>drawFlat\<close>: the calls that fill one sorted element.\<close>

definition drawFlat_fill :: "Renderer \<Rightarrow> triangleWithDepth \<Rightarrow> cairo_call list" where
  "drawFlat_fill r td =
     (case (ProjectToScreen r (V0 (tri td)), ProjectToScreen r (V1 (tri td)),
            ProjectToScreen r (V2 (tri td))) of
        ((x0, y0, _), (x1, y1, _), (x2, y2, _)) \<Rightarrow>
          [MoveTo x0 y0, LineTo x1 y1, LineTo x2 y2, ClosePath, Fill])"

definition drawFlat ::
  "((triangleWithDepth \<Rightarrow> triangleWithDepth \<Rightarrow> bool)
      \<Rightarrow> triangleWithDepth list \<Rightarrow> triangleWithDepth list)
     \<Rightarrow> Renderer \<Rightarrow> Mesh \<Rightarrow> Color3 \<Rightarrow> cairo_call list" where
  "drawFlat sortSlice r mesh col =
     (if length (Triangles mesh) = 0 then []
      else case col of (c0, c1, c2) \<Rightarrow>
        let triangles = drawFlat_triangles r mesh col;
            sorted = sortSlice (\<lambda>ti tj. depth ti > depth tj) triangles
        in [Save]
           @ [SetSourceRGB c0 c1 c2]
           @ concat (map (drawFlat_fill r) sorted)
           @ [Restore])"

definition drawShaded_entry :: "Renderer \<Rightarrow> Color3 \<Rightarrow> Triangle \<Rightarrow> triangleWithDepth option" where
  "drawShaded_entry r col t =
     (case (ProjectToScreen r (V0 t), ProjectToScreen r (V1 t), ProjectToScreen r (V2 t)) of
        ((_, _, z0), (_, _, z1), (_, _, z2)) \<Rightarrow>
          if z0 < - 1 \<or> z1 < - 1 \<or> z2 < - 1 then None
          else
            let avgDepth = (z0 + z1 + z2) / 3;
                normal = Normal t;
                viewDir = Normalize (Sub (Position (Camera r)) (Center t))
            in if Dot normal viewDir < 0 then None
               else
                 let center = Center t;
                     litColor = CalculateLighting r center normal col
                 in Some \<lparr>tri = t, depth = avgDepth, color = litColor\<rparr>)"

definition drawShaded_triangles :: "Renderer \<Rightarrow> Mesh \<Rightarrow> Color3 \<Rightarrow> triangleWithDepth list" where
  "drawShaded_triangles r mesh col = List.map_filter (drawShaded_entry r col) (Triangles mesh)"

definition drawShaded_fill :: "Renderer \<Rightarrow> triangleWithDepth \<Rightarrow> cairo_call list" where
  "drawShaded_fill r td =
     (case (ProjectToScreen r (V0 (tri td)), ProjectToScreen r (V1 (tri td)),
            ProjectToScreen r (V2 (tri td)), color td) of
        ((x0, y0, _), (x1, y1, _), (x2, y2, _), (c0, c1, c2)) \<Rightarrow>
          [MoveTo x0 y0, LineTo x1 y1, LineTo x2 y2, ClosePath, SetSourceRGB c0 c1 c2, Fill])"

definition drawShaded ::
  "((triangleWithDepth \<Rightarrow> triangleWithDepth \<Rightarrow> bool)
      \<Rightarrow> triangleWithDepth list \<Rightarrow> triangleWithDepth list)
     \<Rightarrow> Renderer \<Rightarrow> Mesh \<Rightarrow> Color3 \<Rightarrow> cairo_call list" where
  "drawShaded sortSlice r mesh col =
     (if length (Triangles mesh) = 0 then []
      else
        let triangles = drawShaded_triangles r mesh col;
            sorted = sortSlice (\<lambda>ti tj. depth ti > depth tj) triangles
        in [Save]
           @ concat (map (drawShaded_fill r) sorted)
           @ [Restore])"

definition DrawMesh ::
  "((triangleWithDepth \<Rightarrow> triangleWithDepth \<Rightarrow> bool)
      \<Rightarrow> triangleWithDepth list \<Rightarrow> triangleWithDepth list)
     \<Rightarrow> Renderer \<Rightarrow> Mesh \<Rightarrow> Color3 \<Rightarrow> cairo_call list" where
  "DrawMesh sortSlice r mesh col =
     (case RenderMode r of
        RenderWireframe \<Rightarrow> drawWireframe r mesh col
      | RenderFlat \<Rightarrow> drawFlat sortSlice r mesh col
      | RenderShaded \<Rightarrow> drawShaded sortSlice r mesh col)"

definition DrawMeshWithGradient_entry ::
  "Renderer \<Rightarrow> Color3 \<Rightarrow> Color3 \<Rightarrow> Triangle \<Rightarrow> triangleWithDepth option" where
  "DrawMeshWithGradient_entry r color1 color2 t =
     (case (ProjectToScreen r (V0 t), ProjectToScreen r (V1 t), ProjectToScreen r (V2 t)) of
        ((_, _, z0), (_, _, z1), (_, _, z2)) \<Rightarrow>
          if z0 < - 1 \<or> z1 < - 1 \<or> z2 < - 1 then None
          else
            let avgDepth = (z0 + z1 + z2) / 3;
                t' = (avgDepth + 1) / 2
            in case (color1, color2) of
                 ((p0, p1, p2), (q0, q1, q2)) \<Rightarrow>
                   Some \<lparr>tri = t, depth = avgDepth,
                         color = (p0 * (1 - t') + q0 * t', p1 * (1 - t') + q1 * t',
                                  p2 * (1 - t') + q2 * t')\<rparr>)"

definition DrawMeshWithGradient_triangles ::
  "Renderer \<Rightarrow> Mesh \<Rightarrow> Color3 \<Rightarrow> Color3 \<Rightarrow> triangleWithDepth list" where
  "DrawMeshWithGradient_triangles r mesh color1 color2 =
     List.map_filter (DrawMeshWithGradient_entry r color1 color2) (Triangles mesh)"

text \<open>
  The second loop of \<open>DrawMeshWithGradient\<close> issues the same calls for an element as the
  second loop of \<open>drawShaded\<close>.
\<close>

definition DrawMeshWithGradient ::
  "((triangleWithDepth \<Rightarrow> triangleWithDepth \<Rightarrow> bool)
      \<Rightarrow> triangleWithDepth list \<Rightarrow> triangleWithDepth list)
     \<Rightarrow> Renderer \<Rightarrow> Mesh \<Rightarrow> Color3 \<Rightarrow> Color3 \<Rightarrow> cairo_call list" where
  "DrawMeshWithGradient sortSlice r mesh color1 color2 =
     (if length (Triangles mesh) = 0 then []
      else
        let triangles = DrawMeshWithGradient_triangles r mesh color1 color2;
            sorted = sortSlice (\<lambda>ti tj. depth ti > depth tj) triangles
        in [Save]
           @ concat (map (drawShaded_fill r) sorted)
           @ [Restore])"

section \<open>Animation pipeline (animation.go)\<close>

text \<open>
  The fields \<open>Width\<close> and \<open>Height\<close> of the configuration carry the suffix \<open>_cfg\<close>, since the
  renderer has fields of the same names.
\<close>

record AnimationConfig =
  Width_cfg :: int
  Height_cfg :: int
  FPS :: int
  Duration :: real
  OutputFile :: string
  TempDir :: string
  Quality :: int
  CleanupTemp :: bool
  Workers :: int

definition DefaultAnimationConfig :: AnimationConfig where
  "DefaultAnimationConfig =
     \<lparr>Width_cfg = 1920, Height_cfg = 1080, FPS = 30, Duration = 10,
      OutputFile = ''animation.mp4'', TempDir = ''temp_frames'', Quality = 23,
      CleanupTemp = True, Workers = 1\<rparr>"

text \<open>
  A \<open>FrameRenderer\<close> draws on the renderer it is handed. The model takes it as a function
  of its three arguments to the content of the surface when it returns, which is what
  \<open>SaveToPNG\<close> writes; \<open>'img\<close> is the type of that content. The field \<open>Renderer\<close> of the
  generator is \<open>Renderer_cb\<close>.
\<close>

type_synonym 'img FrameRenderer = "Renderer \<Rightarrow> int \<Rightarrow> real \<Rightarrow> 'img"

record 'img AnimationGenerator =
  Config :: AnimationConfig
  Renderer_cb :: "'img FrameRenderer"

definition NewAnimationGenerator ::
  "AnimationConfig \<Rightarrow> 'img FrameRenderer \<Rightarrow> 'img AnimationGenerator" where
  "NewAnimationGenerator config renderer = \<lparr>Config = config, Renderer_cb = renderer\<rparr>"

subsection \<open>The world outside the generator\<close>

text \<open>
  The file system and the encoder are outside the program. The state of the world that the
  pipeline changes is: the content of the image files written so far, by path; the
  invocations of the render callback, in order, each with its frame index and normalised
  time; and the calls made to the operating system, in order. Removing a directory is
  recorded as a call; its effect on \<open>files\<close> is not modelled.
\<close>

datatype os_call =
    MkdirAll string
  | WriteToPNG string
  | RunFfmpeg "string list"
  | RemoveAll string

record 'img world =
  files :: "string \<rightharpoonup> 'img"
  renders :: "(int \<times> real) list"
  os_calls :: "os_call list"

text \<open>
  What the world answers: whether \<open>os.MkdirAll\<close> succeeds on a path, whether the encoder
  exits with status zero on its arguments, whether \<open>os.RemoveAll\<close> succeeds, and the
  scheduler of the goroutines: \<open>sched k\<close> selects, at step \<open>k\<close> of a multi-worker run, which
  of the goroutines that can move does move.
\<close>

record env =
  mkdirAll_ok :: "string \<Rightarrow> bool"
  ffmpeg_ok :: "string list \<Rightarrow> bool"
  removeAll_ok :: "string \<Rightarrow> bool"
  sched :: "nat \<Rightarrow> nat"

datatype gen_error = MkdirFailed | SaveFailed int | FfmpegFailed

text \<open>
  A call returns \<open>nil\<close> (\<open>OK\<close>), returns an error, or panics. The one panic of the pipeline
  is \<open>make(chan int, totalFrames)\<close> with a negative size.
\<close>

datatype go_result = OK | Error gen_error | Panic

subsection \<open>Formatting\<close>

text \<open>
  \<open>fmt.Sprintf\<close> with the verbs \<open>%d\<close> and \<open>%04d\<close>: decimal digits, a minus sign for a
  negative number, and for \<open>%04d\<close> zeros after the sign up to a width of four.
\<close>

definition digit_char :: "nat \<Rightarrow> char" where
  "digit_char d = char_of (48 + d)"

fun decimal :: "nat \<Rightarrow> string" where
  "decimal n = (if n < 10 then [digit_char n] else decimal (n div 10) @ [digit_char (n mod 10)])"

declare decimal.simps [simp del]

definition zero_pad :: "nat \<Rightarrow> string \<Rightarrow> string" where
  "zero_pad width s = replicate (width - length s) CHR ''0'' @ s"

definition fmt_d :: "int \<Rightarrow> string" where
  "fmt_d i = (if i < 0 then ''-'' @ decimal (nat (- i)) else decimal (nat i))"

definition fmt_04d :: "int \<Rightarrow> string" where
  "fmt_04d i =
     (if i < 0 then ''-'' @ zero_pad 3 (decimal (nat (- i))) else zero_pad 4 (decimal (nat i)))"

text \<open>
  \<open>filepath.Join\<close> of a directory and a file name, for a directory path that is not empty
  and is already clean; the normalisation that the library applies to other paths is not
  modelled.
\<close>

definition filepath_Join :: "string \<Rightarrow> string \<Rightarrow> string" where
  "filepath_Join dir name = dir @ ''/'' @ name"

definition framePath :: "'img AnimationGenerator \<Rightarrow> int \<Rightarrow> string" where
  "framePath ag frame =
     filepath_Join (TempDir (Config ag)) (''frame_'' @ fmt_04d frame @ ''.png'')"

subsection \<open>Frame generation\<close>

text \<open>
  \<open>SaveToPNG\<close> calls \<open>WriteToPNG\<close> on the surface, drops its status and returns \<open>nil\<close>. The
  model takes the write to put the content of the surface at the path.
\<close>

definition SaveToPNG :: "'img world \<Rightarrow> string \<Rightarrow> 'img \<Rightarrow> gen_error option \<times> 'img world" where
  "SaveToPNG w filename img =
     (None, w\<lparr>files := (files w)(filename \<mapsto> img),
               os_calls := os_calls w @ [WriteToPNG filename]\<rparr>)"

text \<open>The conversion \<open>int(x)\<close> of a \<open>float64\<close> truncates toward zero.\<close>

definition go_int :: "real \<Rightarrow> int" where
  "go_int x = (if 0 \<le> x then \<lfloor>x\<rfloor> else \<lceil>x\<rceil>)"

text \<open>The normalised time \<open>float64(frame-1) / float64(totalFrames)\<close> of a frame.\<close>

definition frameTime :: "int \<Rightarrow> int \<Rightarrow> real" where
  "frameTime totalFrames frame = real_of_int (frame - 1) / real_of_int totalFrames"

text \<open>
  The loop of \<open>generateFramesSingleThread\<close>, from the frame index it is at. The progress
  lines that it prints are left out.
\<close>

function generateFramesSingleThread_loop ::
  "'img AnimationGenerator \<Rightarrow> int \<Rightarrow> int \<Rightarrow> 'img world \<Rightarrow> go_result \<times> 'img world" where
  "generateFramesSingleThread_loop ag totalFrames frame w =
     (if frame \<le> totalFrames then
        let t = frameTime totalFrames frame;
            renderer = NewRenderer (Width_cfg (Config ag)) (Height_cfg (Config ag));
            img = Renderer_cb ag renderer frame t;
            w1 = w\<lparr>renders := renders w @ [(frame, t)]\<rparr>
        in case SaveToPNG w1 (framePath ag frame) img of
             (Some err, w2) \<Rightarrow> (Error (SaveFailed frame), w2)
           | (None, w2) \<Rightarrow> generateFramesSingleThread_loop ag totalFrames (frame + 1) w2
      else (OK, w))"
  by pat_completeness auto
termination
  by (relation "measure (\<lambda>(ag, totalFrames, frame, w). nat (totalFrames + 1 - frame))") auto

definition generateFramesSingleThread ::
  "'img AnimationGenerator \<Rightarrow> int \<Rightarrow> 'img world \<Rightarrow> go_result \<times> 'img world" where
  "generateFramesSingleThread ag totalFrames w =
     generateFramesSingleThread_loop ag totalFrames 1 w"

subsection \<open>Frame generation on several workers\<close>

text \<open>
  \<open>generateFramesMultiThread\<close> starts \<open>workers\<close> goroutines that receive frame indices from
  the channel \<open>jobs\<close>, while the calling goroutine sends the indices 1 to \<open>totalFrames\<close> and
  closes the channel. The run is a sequence of steps of these goroutines, interleaved by
  the scheduler. A worker is idle (about to receive), has received a frame, has rendered
  it (the callback has returned and the surface holds the image), or has returned.

  Both \<open>jobs\<close> and \<open>progress\<close> have room for \<open>totalFrames\<close> elements, so no send on them
  blocks; the goroutine that counts \<open>progress\<close> only prints and is left out.
\<close>

datatype 'img worker = Idle | Got int | Rendered int 'img | Stopped

record 'img mt_state =
  pending :: "int list"
  closed :: bool
  jobs :: "int list"
  workers :: "'img worker list"
  errors :: "gen_error list"
  mt_world :: "'img world"

datatype action = SendJob | CloseJobs | RecvJob nat | RenderFrame nat | SaveFrame nat | ExitLoop nat

text \<open>
  The steps that can be taken in a state: the caller sends the next index or, after the
  last one, closes the channel; an idle worker receives when the channel holds an index,
  and leaves its loop when the channel is closed and empty; a worker that has received
  renders; a worker that has rendered saves.
\<close>

definition worker_actions :: "'img mt_state \<Rightarrow> nat \<Rightarrow> action list" where
  "worker_actions s i =
     (case workers s ! i of
        Idle \<Rightarrow> (if jobs s \<noteq> [] then [RecvJob i] else if closed s then [ExitLoop i] else [])
      | Got frame \<Rightarrow> [RenderFrame i]
      | Rendered frame img \<Rightarrow> [SaveFrame i]
      | Stopped \<Rightarrow> [])"

definition enabled :: "'img mt_state \<Rightarrow> action list" where
  "enabled s =
     (if pending s \<noteq> [] then [SendJob] else if \<not> closed s then [CloseJobs] else [])
     @ concat (map (worker_actions s) [0..<length (workers s)])"

definition step :: "'img AnimationGenerator \<Rightarrow> int \<Rightarrow> action \<Rightarrow> 'img mt_state \<Rightarrow> 'img mt_state" where
  "step ag totalFrames a s =
     (case a of
        SendJob \<Rightarrow>
          (case pending s of
             [] \<Rightarrow> s
           | frame # rest \<Rightarrow> s\<lparr>pending := rest, jobs := jobs s @ [frame]\<rparr>)
      | CloseJobs \<Rightarrow> s\<lparr>closed := True\<rparr>
      | RecvJob i \<Rightarrow>
          (case jobs s of
             [] \<Rightarrow> s
           | frame # rest \<Rightarrow> s\<lparr>jobs := rest, workers := (workers s)[i := Got frame]\<rparr>)
      | RenderFrame i \<Rightarrow>
          (case workers s ! i of
             Got frame \<Rightarrow>
               let t = frameTime totalFrames frame;
                   renderer = NewRenderer (Width_cfg (Config ag)) (Height_cfg (Config ag));
                   img = Renderer_cb ag renderer frame t
               in s\<lparr>workers := (workers s)[i := Rendered frame img],
                     mt_world := (mt_world s)\<lparr>renders := renders (mt_world s) @ [(frame, t)]\<rparr>\<rparr>
           | _ \<Rightarrow> s)
      | SaveFrame i \<Rightarrow>
          (case workers s ! i of
             Rendered frame img \<Rightarrow>
               (case SaveToPNG (mt_world s) (framePath ag frame) img of
                  (Some err, w') \<Rightarrow>
                    s\<lparr>workers := (workers s)[i := Stopped],
                      errors := errors s @ [SaveFailed frame], mt_world := w'\<rparr>
                | (None, w') \<Rightarrow> s\<lparr>workers := (workers s)[i := Idle], mt_world := w'\<rparr>)
           | _ \<Rightarrow> s)
      | ExitLoop i \<Rightarrow> s\<lparr>workers := (workers s)[i := Stopped]\<rparr>)"

text \<open>
  Every step lowers the following measure of a state, so every run comes to a state in
  which no step can be taken, whatever the scheduler picks.
\<close>

fun worker_rank :: "'img worker \<Rightarrow> nat" where
  "worker_rank Stopped = 0"
| "worker_rank Idle = 1"
| "worker_rank (Rendered frame img) = 2"
| "worker_rank (Got frame) = 3"

definition mt_measure :: "'img mt_state \<Rightarrow> nat" where
  "mt_measure s =
     5 * length (pending s) + 4 * length (jobs s) + (if closed s then 0 else 1)
     + sum_list (map worker_rank (workers s))"

text \<open>
  The run from step \<open>k\<close>: while some goroutine can move, the scheduler picks one of the
  steps that can be taken. A state in which none can be taken is one in which the caller
  has closed the channel and every worker has returned, which is where \<open>wg.Wait\<close> returns.
\<close>

function mt_run ::
  "(nat \<Rightarrow> nat) \<Rightarrow> 'img AnimationGenerator \<Rightarrow> int \<Rightarrow> nat \<Rightarrow> 'img mt_state \<Rightarrow> 'img mt_state" where
  "mt_run sch ag totalFrames k s =
     (if enabled s = [] then s
      else mt_run sch ag totalFrames (Suc k)
             (step ag totalFrames (enabled s ! (sch k mod length (enabled s))) s))"
  by pat_completeness auto

definition generateFramesMultiThread ::
  "env \<Rightarrow> 'img AnimationGenerator \<Rightarrow> int \<Rightarrow> int \<Rightarrow> 'img world \<Rightarrow> go_result \<times> 'img world" where
  "generateFramesMultiThread e ag totalFrames workers' w =
     (if totalFrames < 0 then (Panic, w)
      else
        let s0 = \<lparr>pending = [1..totalFrames], closed = False, jobs = [],
                  workers = replicate (nat workers') Idle, errors = [], mt_world = w\<rparr>;
            s = mt_run (sched e) ag totalFrames 0 s0
        in case errors s of
             [] \<Rightarrow> (OK, mt_world s)
           | err # rest \<Rightarrow> (Error err, mt_world s))"

definition GenerateFrames ::
  "env \<Rightarrow> 'img AnimationGenerator \<Rightarrow> 'img world \<Rightarrow> go_result \<times> 'img world" where
  "GenerateFrames e ag w =
     (let w1 = w\<lparr>os_calls := os_calls w @ [MkdirAll (TempDir (Config ag))]\<rparr> in
      if \<not> mkdirAll_ok e (TempDir (Config ag)) then (Error MkdirFailed, w1)
      else
        let totalFrames = go_int (real_of_int (FPS (Config ag)) * Duration (Config ag));
            workers' = (if Workers (Config ag) < 1 then 1 else Workers (Config ag))
        in if workers' = 1 then generateFramesSingleThread ag totalFrames w1
           else generateFramesMultiThread e ag totalFrames workers' w1)"

subsection \<open>Video composition and the entry points\<close>

definition ComposeVideo ::
  "env \<Rightarrow> 'img AnimationGenerator \<Rightarrow> 'img world \<Rightarrow> go_result \<times> 'img world" where
  "ComposeVideo e ag w =
     (let args =
            [''-y'',
             ''-framerate'', fmt_d (FPS (Config ag)),
             ''-start_number'', ''1'',
             ''-i'', filepath_Join (TempDir (Config ag)) ''frame_%04d.png'',
             ''-c:v'', ''libx264'',
             ''-pix_fmt'', ''yuv420p'',
             ''-crf'', fmt_d (Quality (Config ag)),
             OutputFile (Config ag)];
          w1 = w\<lparr>os_calls := os_calls w @ [RunFfmpeg args]\<rparr>
      in if ffmpeg_ok e args then (OK, w1) else (Error FfmpegFailed, w1))"

text \<open>
  \<open>Generate\<close>: a failure of \<open>os.RemoveAll\<close> is printed as a warning and changes nothing in
  the result.
\<close>

definition Generate ::
  "env \<Rightarrow> 'img AnimationGenerator \<Rightarrow> 'img world \<Rightarrow> go_result \<times> 'img world" where
  "Generate e ag w =
     (case GenerateFrames e ag w of
        (OK, w1) \<Rightarrow>
          (case ComposeVideo e ag w1 of
             (OK, w2) \<Rightarrow>
               if CleanupTemp (Config ag)
               then (OK, w2\<lparr>os_calls := os_calls w2 @ [RemoveAll (TempDir (Config ag))]\<rparr>)
               else (OK, w2)
           | (err, w2) \<Rightarrow> (err, w2))
      | (err, w1) \<Rightarrow> (err, w1))"

text \<open>
  \<open>GenerateFramesOnly\<close> changes the configuration of the generator it is called on, so it
  returns the generator too. The deferred function runs on every way out of the call,
  a panic of \<open>GenerateFrames\<close> included.
\<close>

definition GenerateFramesOnly ::
  "env \<Rightarrow> 'img AnimationGenerator \<Rightarrow> string \<Rightarrow> 'img world
     \<Rightarrow> go_result \<times> 'img AnimationGenerator \<times> 'img world" where
  "GenerateFramesOnly e ag outputDir w =
     (let originalTempDir = TempDir (Config ag);
          ag1 = ag\<lparr>Config := (Config ag)\<lparr>TempDir := outputDir\<rparr>\<rparr>;
          ag2 = ag1\<lparr>Config := (Config ag1)\<lparr>CleanupTemp := False\<rparr>\<rparr>;
          deferred = (\<lambda>a. a\<lparr>Config := (Config a)\<lparr>TempDir := originalTempDir\<rparr>\<rparr>)
      in case GenerateFrames e ag2 w of
           (res, w1) \<Rightarrow> (res, deferred ag2, w1))"

section \<open>Camera paths (camera.go)\<close>

text \<open>
  The fields \<open>Position\<close>, \<open>Target\<close> and \<open>FOV\<close> of a keyframe carry the suffix \<open>_kf\<close>, since
  the camera of the renderer has fields of the same names.
\<close>

record CameraKeyframe =
  Time :: real
  Position_kf :: Vector3
  Target_kf :: Vector3
  FOV_kf :: real

text \<open>The function-valued field \<open>SmoothFunction\<close> may be \<open>nil\<close>, which is \<open>None\<close>.\<close>

record InterpolatedCameraPath =
  Keyframes :: "CameraKeyframe list"
  SmoothFunction :: "(real \<Rightarrow> real) option"

definition Smoothstep :: "real \<Rightarrow> real" where
  "Smoothstep t = (if t < 0 then 0 else if t > 1 then 1 else t * t * (3 - 2 * t))"

definition NewInterpolatedCameraPath :: "CameraKeyframe list \<Rightarrow> InterpolatedCameraPath" where
  "NewInterpolatedCameraPath keyframes =
     \<lparr>Keyframes = keyframes, SmoothFunction = Some Smoothstep\<rparr>"

text \<open>
  The search loop of \<open>interpolateVector\<close> and \<open>interpolateFloat\<close>: the first index \<open>i\<close> with
  \<open>Keyframes[i].Time \<le> t \<le> Keyframes[i+1].Time\<close> gives \<open>kf1, kf2\<close>, and the loop breaks.
  When no index qualifies, \<open>kf1\<close> and \<open>kf2\<close> keep the zero value of their declaration.
\<close>

definition zero_keyframe :: CameraKeyframe where
  "zero_keyframe =
     \<lparr>Time = 0, Position_kf = \<lparr>X = 0, Y = 0, Z = 0\<rparr>,
      Target_kf = \<lparr>X = 0, Y = 0, Z = 0\<rparr>, FOV_kf = 0\<rparr>"

fun find_bracket :: "real \<Rightarrow> CameraKeyframe list \<Rightarrow> CameraKeyframe \<times> CameraKeyframe" where
  "find_bracket t (a # b # rest) =
     (if t \<ge> Time a \<and> t \<le> Time b then (a, b) else find_bracket t (b # rest))"
| "find_bracket t [a] = (zero_keyframe, zero_keyframe)"
| "find_bracket t [] = (zero_keyframe, zero_keyframe)"

text \<open>
  The division by \<open>kf2.Time - kf1.Time\<close> is unguarded in the source. When the two times are
  equal the source goes on with an IEEE NaN or infinity; the model stops there with \<open>None\<close>
  and does not follow that value further.
\<close>

definition interpolateVector ::
  "InterpolatedCameraPath \<Rightarrow> real \<Rightarrow> (CameraKeyframe \<Rightarrow> Vector3) \<Rightarrow> Vector3 option" where
  "interpolateVector cp t getter =
     (let kfs = Keyframes cp in
      if length kfs = 0 then Some (NewVector3 0 0 0)
      else if length kfs = 1 then Some (getter (kfs ! 0))
      else
        let (kf1, kf2) = find_bracket t kfs in
        if t < Time (kfs ! 0) then Some (getter (kfs ! 0))
        else if t > Time (kfs ! (length kfs - 1)) then Some (getter (kfs ! (length kfs - 1)))
        else if Time kf2 - Time kf1 = 0 then None
        else
          let localT0 = (t - Time kf1) / (Time kf2 - Time kf1);
              localT = (case SmoothFunction cp of None \<Rightarrow> localT0 | Some f \<Rightarrow> f localT0);
              v1 = getter kf1;
              v2 = getter kf2
          in Some (Add (Scale v1 (1 - localT)) (Scale v2 localT)))"

definition interpolateFloat ::
  "InterpolatedCameraPath \<Rightarrow> real \<Rightarrow> (CameraKeyframe \<Rightarrow> real) \<Rightarrow> real option" where
  "interpolateFloat cp t getter =
     (let kfs = Keyframes cp in
      if length kfs = 0 then Some 0
      else if length kfs = 1 then Some (getter (kfs ! 0))
      else
        let (kf1, kf2) = find_bracket t kfs in
        if t < Time (kfs ! 0) then Some (getter (kfs ! 0))
        else if t > Time (kfs ! (length kfs - 1)) then Some (getter (kfs ! (length kfs - 1)))
        else if Time kf2 - Time kf1 = 0 then None
        else
          let localT0 = (t - Time kf1) / (Time kf2 - Time kf1);
              localT = (case SmoothFunction cp of None \<Rightarrow> localT0 | Some f \<Rightarrow> f localT0);
              v1 = getter kf1;
              v2 = getter kf2
          in Some (v1 * (1 - localT) + v2 * localT))"

definition GetPosition :: "InterpolatedCameraPath \<Rightarrow> real \<Rightarrow> Vector3 option" where
  "GetPosition cp t = interpolateVector cp t Position_kf"

definition GetTarget :: "InterpolatedCameraPath \<Rightarrow> real \<Rightarrow> Vector3 option" where
  "GetTarget cp t = interpolateVector cp t Target_kf"

definition GetFOV :: "InterpolatedCameraPath \<Rightarrow> real \<Rightarrow> real option" where
  "GetFOV cp t = interpolateFloat cp t FOV_kf"

text \<open>
  A smoothing function that is absent or maps 0 to 0 and 1 to 1, as \<open>Smoothstep\<close> does.
\<close>

definition fixes_ends :: "(real \<Rightarrow> real) option \<Rightarrow> bool" where
  "fixes_ends sf = (case sf of None \<Rightarrow> True | Some f \<Rightarrow> f 0 = 0 \<and> f 1 = 1)"

section \<open>Properties of the linear algebra core\<close>

lemma epsilon_pos: "0 < epsilon"
  by (simp add: epsilon_def)

lemma Length_nonneg: "0 \<le> Length v"
  by (simp add: Length_def)

lemma Length_Scale: "Length (Scale v s) = \<bar>s\<bar> * Length v"
proof -
  have "X v * s * (X v * s) + Y v * s * (Y v * s) + Z v * s * (Z v * s)
        = s\<^sup>2 * (X v * X v + Y v * Y v + Z v * Z v)"
    by (simp add: power2_eq_square algebra_simps)
  then show ?thesis
    by (simp add: Length_def Scale_def real_sqrt_mult)
qed

lemma Length_Normalize:
  assumes "\<not> Length v < epsilon"
  shows "Length (Normalize v) = 1"
proof -
  from assms epsilon_pos have pos: "0 < Length v"
    by linarith
  have "Length (Scale v (1 / Length v)) = \<bar>1 / Length v\<bar> * Length v"
    by (rule Length_Scale)
  also from pos have "\<dots> = 1"
    by simp
  finally show ?thesis
    using assms by (simp add: Normalize_def Let_def)
qed

lemma sqrt_twenty_five: "sqrt 25 = 5"
  by (rule real_sqrt_unique) simp_all

text \<open>
  Claim C6. A vector shorter than epsilon is normalised to the zero vector, so the source
  never divides by a length below epsilon; any other vector is normalised to length one
  (exactly one over the reals, which is the source's "approximately one" before rounding).
\<close>

theorem Normalize_zero_or_unit:
  "(Length v < epsilon \<longrightarrow> Normalize v = \<lparr>X = 0, Y = 0, Z = 0\<rparr>) \<and>
   (Length v \<ge> epsilon \<longrightarrow>
      Normalize v = Scale v (1 / Length v) \<and> Length (Normalize v) = 1)"
proof (intro conjI impI)
  assume "Length v < epsilon"
  then show "Normalize v = \<lparr>X = 0, Y = 0, Z = 0\<rparr>"
    by (simp add: Normalize_def)
next
  assume ge: "Length v \<ge> epsilon"
  then show "Normalize v = Scale v (1 / Length v)"
    by (simp add: Normalize_def Let_def)
  from ge show "Length (Normalize v) = 1"
    by (simp add: Length_Normalize)
qed

theorem Normalize_zero_or_unit_witness:
  "Length \<lparr>X = 0, Y = 0, Z = 0\<rparr> < epsilon \<and>
   Normalize \<lparr>X = 0, Y = 0, Z = 0\<rparr> = \<lparr>X = 0, Y = 0, Z = 0\<rparr> \<and>
   Length \<lparr>X = 3, Y = 4, Z = 0\<rparr> \<ge> epsilon \<and>
   Normalize \<lparr>X = 3, Y = 4, Z = 0\<rparr> = \<lparr>X = 3 / 5, Y = 4 / 5, Z = 0\<rparr> \<and>
   Length (Normalize \<lparr>X = 3, Y = 4, Z = 0\<rparr>) = 1"
proof -
  have short: "Length \<lparr>X = 0, Y = 0, Z = 0\<rparr> < epsilon"
    by (simp add: Length_def epsilon_def)
  have len: "Length \<lparr>X = 3, Y = 4, Z = 0\<rparr> = 5"
    by (simp add: Length_def sqrt_twenty_five)
  then have long: "Length \<lparr>X = 3, Y = 4, Z = 0\<rparr> \<ge> epsilon"
    by (simp add: epsilon_def)
  have sc: "Scale \<lparr>X = 3, Y = 4, Z = 0\<rparr> (1 / 5) = \<lparr>X = 3 / 5, Y = 4 / 5, Z = 0\<rparr>"
    by (simp add: Scale_def)
  from short have a: "Normalize \<lparr>X = 0, Y = 0, Z = 0\<rparr> = \<lparr>X = 0, Y = 0, Z = 0\<rparr>"
    using Normalize_zero_or_unit [of "\<lparr>X = 0, Y = 0, Z = 0\<rparr>"] by blast
  from long have b: "Normalize \<lparr>X = 3, Y = 4, Z = 0\<rparr>
      = Scale \<lparr>X = 3, Y = 4, Z = 0\<rparr> (1 / Length \<lparr>X = 3, Y = 4, Z = 0\<rparr>) \<and>
      Length (Normalize \<lparr>X = 3, Y = 4, Z = 0\<rparr>) = 1"
    using Normalize_zero_or_unit [of "\<lparr>X = 3, Y = 4, Z = 0\<rparr>"] by blast
  from b have c: "Normalize \<lparr>X = 3, Y = 4, Z = 0\<rparr> = \<lparr>X = 3 / 5, Y = 4 / 5, Z = 0\<rparr>"
    unfolding len sc by blast
  from short long a b c show ?thesis
    by blast
qed

text \<open>
  Claim C7. When the cross product of the edges \<open>V1 - V0\<close> and \<open>V2 - V0\<close> is shorter than
  epsilon, \<open>Normal\<close> is the up vector \<open>{0,1,0}\<close>; otherwise it is the normalised cross
  product. \<open>Normal\<close> is total, and its result has length one in both cases, so no triangle
  makes the computation fail.
\<close>

theorem Normal_degenerate_or_normalized:
  "(Length (Cross (Sub (V1 t) (V0 t)) (Sub (V2 t) (V0 t))) < epsilon \<longrightarrow>
      Normal t = \<lparr>X = 0, Y = 1, Z = 0\<rparr>) \<and>
   (\<not> Length (Cross (Sub (V1 t) (V0 t)) (Sub (V2 t) (V0 t))) < epsilon \<longrightarrow>
      Normal t = Normalize (Cross (Sub (V1 t) (V0 t)) (Sub (V2 t) (V0 t)))) \<and>
   Length (Normal t) = 1"
proof -
  let ?n = "Cross (Sub (V1 t) (V0 t)) (Sub (V2 t) (V0 t))"
  have up: "Length \<lparr>X = 0, Y = 1, Z = 0\<rparr> = 1"
    by (simp add: Length_def)
  show ?thesis
  proof (cases "Length ?n < epsilon")
    case True
    then show ?thesis
      by (simp add: Normal_def Let_def up)
  next
    case False
    then have "Length (Normalize ?n) = 1"
      by (rule Length_Normalize)
    with False show ?thesis
      by (simp add: Normal_def Let_def)
  qed
qed

theorem Normal_degenerate_or_normalized_witness:
  "Length (Cross (Sub \<lparr>X = 1, Y = 1, Z = 1\<rparr> \<lparr>X = 0, Y = 0, Z = 0\<rparr>)
                 (Sub \<lparr>X = 2, Y = 2, Z = 2\<rparr> \<lparr>X = 0, Y = 0, Z = 0\<rparr>)) < epsilon \<and>
   Normal \<lparr>V0 = \<lparr>X = 0, Y = 0, Z = 0\<rparr>, V1 = \<lparr>X = 1, Y = 1, Z = 1\<rparr>,
           V2 = \<lparr>X = 2, Y = 2, Z = 2\<rparr>\<rparr> = \<lparr>X = 0, Y = 1, Z = 0\<rparr> \<and>
   \<not> Length (Cross (Sub \<lparr>X = 1, Y = 0, Z = 0\<rparr> \<lparr>X = 0, Y = 0, Z = 0\<rparr>)
                   (Sub \<lparr>X = 0, Y = 1, Z = 0\<rparr> \<lparr>X = 0, Y = 0, Z = 0\<rparr>)) < epsilon \<and>
   Normal \<lparr>V0 = \<lparr>X = 0, Y = 0, Z = 0\<rparr>, V1 = \<lparr>X = 1, Y = 0, Z = 0\<rparr>,
           V2 = \<lparr>X = 0, Y = 1, Z = 0\<rparr>\<rparr> = \<lparr>X = 0, Y = 0, Z = 1\<rparr>"
proof -
  let ?flat = "\<lparr>V0 = \<lparr>X = 0, Y = 0, Z = 0\<rparr>, V1 = \<lparr>X = 1, Y = 1, Z = 1\<rparr>,
                V2 = \<lparr>X = 2, Y = 2, Z = 2\<rparr>\<rparr>"
  let ?good = "\<lparr>V0 = \<lparr>X = 0, Y = 0, Z = 0\<rparr>, V1 = \<lparr>X = 1, Y = 0, Z = 0\<rparr>,
                V2 = \<lparr>X = 0, Y = 1, Z = 0\<rparr>\<rparr>"
  have c1: "Cross (Sub \<lparr>X = 1, Y = 1, Z = 1\<rparr> \<lparr>X = 0, Y = 0, Z = 0\<rparr>)
                  (Sub \<lparr>X = 2, Y = 2, Z = 2\<rparr> \<lparr>X = 0, Y = 0, Z = 0\<rparr>) = \<lparr>X = 0, Y = 0, Z = 0\<rparr>"
    by (simp add: Cross_def Sub_def)
  have c2: "Cross (Sub \<lparr>X = 1, Y = 0, Z = 0\<rparr> \<lparr>X = 0, Y = 0, Z = 0\<rparr>)
                  (Sub \<lparr>X = 0, Y = 1, Z = 0\<rparr> \<lparr>X = 0, Y = 0, Z = 0\<rparr>) = \<lparr>X = 0, Y = 0, Z = 1\<rparr>"
    by (simp add: Cross_def Sub_def)
  have l1: "Length \<lparr>X = 0, Y = 0, Z = 0\<rparr> < epsilon"
    by (simp add: Length_def epsilon_def)
  have l2: "\<not> Length \<lparr>X = 0, Y = 0, Z = 1\<rparr> < epsilon"
    by (simp add: Length_def epsilon_def)
  have n2: "Normalize \<lparr>X = 0, Y = 0, Z = 1\<rparr> = \<lparr>X = 0, Y = 0, Z = 1\<rparr>"
    using l2 by (simp add: Normalize_def Let_def Scale_def) (simp add: Length_def)
  from Normal_degenerate_or_normalized [of ?flat] Normal_degenerate_or_normalized [of ?good]
  show ?thesis
    by (simp add: c1 c2 l1 l2 n2)
qed

text \<open>
  Claim C8. \<open>Perspective\<close> is the identity matrix as soon as one of \<open>|fov|\<close>, \<open>|aspect|\<close>,
  \<open>|far - near|\<close> is below epsilon. It is a total function (no error exists to raise).
  For every other input it is the standard perspective matrix with \<open>f = 1 / tan (fov / 2)\<close>,
  where the divisors \<open>aspect\<close> and \<open>near - far\<close> are not zero.
\<close>

theorem Perspective_identity_or_standard:
  "(\<bar>fov\<bar> < epsilon \<or> \<bar>aspect\<bar> < epsilon \<or> \<bar>far - near\<bar> < epsilon \<longrightarrow>
      Perspective fov aspect near far = Identity) \<and>
   (\<not> (\<bar>fov\<bar> < epsilon \<or> \<bar>aspect\<bar> < epsilon \<or> \<bar>far - near\<bar> < epsilon) \<longrightarrow>
      aspect \<noteq> 0 \<and> near - far \<noteq> 0 \<and>
      Perspective fov aspect near far =
        Matrix4
          (1 / tan (fov / 2) / aspect) 0 0 0
          0 (1 / tan (fov / 2)) 0 0
          0 0 ((far + near) / (near - far)) ((2 * far * near) / (near - far))
          0 0 (- 1) 0)"
proof (intro conjI impI)
  assume "\<bar>fov\<bar> < epsilon \<or> \<bar>aspect\<bar> < epsilon \<or> \<bar>far - near\<bar> < epsilon"
  then show "Perspective fov aspect near far = Identity"
    by (simp add: Perspective_def)
next
  assume nd: "\<not> (\<bar>fov\<bar> < epsilon \<or> \<bar>aspect\<bar> < epsilon \<or> \<bar>far - near\<bar> < epsilon)"
  with epsilon_pos show "aspect \<noteq> 0" "near - far \<noteq> 0"
    by auto
  from nd show "Perspective fov aspect near far =
        Matrix4
          (1 / tan (fov / 2) / aspect) 0 0 0
          0 (1 / tan (fov / 2)) 0 0
          0 0 ((far + near) / (near - far)) ((2 * far * near) / (near - far))
          0 0 (- 1) 0"
    by (simp add: Perspective_def Let_def)
qed

theorem Perspective_identity_or_standard_witness:
  "(\<bar>1::real\<bar> < epsilon \<or> \<bar>0::real\<bar> < epsilon \<or> \<bar>100 - 1 / 10 :: real\<bar> < epsilon) \<and>
   Perspective 1 0 (1 / 10) 100 = Identity \<and>
   \<not> (\<bar>1::real\<bar> < epsilon \<or> \<bar>16 / 9 :: real\<bar> < epsilon \<or> \<bar>100 - 1 / 10 :: real\<bar> < epsilon) \<and>
   m10 (Perspective 1 (16 / 9) (1 / 10) 100) = - (1001 / 999) \<and>
   m11 (Perspective 1 (16 / 9) (1 / 10) 100) = - (200 / 999) \<and>
   m14 (Perspective 1 (16 / 9) (1 / 10) 100) = - 1"
proof -
  have deg: "\<bar>1::real\<bar> < epsilon \<or> \<bar>0::real\<bar> < epsilon \<or> \<bar>100 - 1 / 10 :: real\<bar> < epsilon"
    by (simp add: epsilon_def)
  have nondeg:
    "\<not> (\<bar>1::real\<bar> < epsilon \<or> \<bar>16 / 9 :: real\<bar> < epsilon \<or> \<bar>100 - 1 / 10 :: real\<bar> < epsilon)"
    by (simp add: epsilon_def)
  from deg nondeg
    Perspective_identity_or_standard [of 1 0 100 "1 / 10"]
    Perspective_identity_or_standard [of 1 "16 / 9" 100 "1 / 10"]
  show ?thesis
    by simp
qed

text \<open>
  Claim C9. \<open>TransformVector\<close> computes the homogeneous \<open>w\<close> of every input. When \<open>w\<close> is
  within epsilon of 0 or within epsilon of 1 the undivided \<open>x, y, z\<close> are returned;
  otherwise \<open>x, y, z\<close> are divided by \<open>w\<close>, whose absolute value then exceeds epsilon.
\<close>

theorem TransformVector_divides_unless_near_0_or_1:
  fixes m :: Matrix4 and v :: Vector3
  defines "x \<equiv> m0 m * X v + m1 m * Y v + m2 m * Z v + m3 m"
    and "y \<equiv> m4 m * X v + m5 m * Y v + m6 m * Z v + m7 m"
    and "z \<equiv> m8 m * X v + m9 m * Y v + m10 m * Z v + m11 m"
    and "w \<equiv> m12 m * X v + m13 m * Y v + m14 m * Z v + m15 m"
  shows
  "(\<bar>w\<bar> \<le> epsilon \<or> \<bar>w - 1\<bar> \<le> epsilon \<longrightarrow>
      TransformVector m v = \<lparr>X = x, Y = y, Z = z\<rparr>) \<and>
   (\<not> (\<bar>w\<bar> \<le> epsilon \<or> \<bar>w - 1\<bar> \<le> epsilon) \<longrightarrow>
      epsilon < \<bar>w\<bar> \<and> TransformVector m v = \<lparr>X = x / w, Y = y / w, Z = z / w\<rparr>)"
  unfolding x_def y_def z_def w_def
  by (auto simp add: TransformVector_def Let_def)

theorem TransformVector_divides_unless_near_0_or_1_witness:
  "TransformVector Identity \<lparr>X = 2, Y = 4, Z = 6\<rparr> = \<lparr>X = 2, Y = 4, Z = 6\<rparr> \<and>
   TransformVector (Matrix4 1 0 0 0  0 1 0 0  0 0 1 0  0 0 0 0) \<lparr>X = 2, Y = 4, Z = 6\<rparr>
     = \<lparr>X = 2, Y = 4, Z = 6\<rparr> \<and>
   TransformVector (Matrix4 1 0 0 0  0 1 0 0  0 0 1 0  0 0 0 2) \<lparr>X = 2, Y = 4, Z = 6\<rparr>
     = \<lparr>X = 1, Y = 2, Z = 3\<rparr>"
proof -
  have e: "(0::real) \<le> epsilon" "\<not> (2::real) \<le> epsilon" "\<not> (1::real) \<le> epsilon"
    by (simp_all add: epsilon_def)
  from e
    TransformVector_divides_unless_near_0_or_1 [of Identity "\<lparr>X = 2, Y = 4, Z = 6\<rparr>"]
    TransformVector_divides_unless_near_0_or_1
      [of "Matrix4 1 0 0 0  0 1 0 0  0 0 1 0  0 0 0 0" "\<lparr>X = 2, Y = 4, Z = 6\<rparr>"]
    TransformVector_divides_unless_near_0_or_1
      [of "Matrix4 1 0 0 0  0 1 0 0  0 0 1 0  0 0 0 2" "\<lparr>X = 2, Y = 4, Z = 6\<rparr>"]
  show ?thesis
    by (simp add: Identity_def)
qed

section \<open>Properties of keyframe paths\<close>

lemma Smoothstep_ends: "Smoothstep 0 = 0" "Smoothstep 1 = 1"
  by (simp_all add: Smoothstep_def)

lemma lerp_ends:
  "Add (Scale v1 1) (Scale v2 0) = v1"
  "Add (Scale v1 0) (Scale v2 1) = v2"
  by (simp_all add: Add_def Scale_def)

lemma smooth_ends:
  assumes "fixes_ends sf"
  shows "(case sf of None \<Rightarrow> 0 | Some f \<Rightarrow> f 0) = 0"
    and "(case sf of None \<Rightarrow> 1 | Some f \<Rightarrow> f 1) = 1"
  using assms by (simp_all add: fixes_ends_def split: option.splits)

text \<open>
  With strictly increasing times the search stops at a pair of which the keyframe asked
  for is a member, and the two times of the pair differ.
\<close>

lemma find_bracket_at_keyframe:
  assumes "sorted_wrt (<) (map Time kfs)" and "k \<in> set kfs" and "2 \<le> length kfs"
  shows "\<exists>a b. find_bracket (Time k) kfs = (a, b) \<and> Time a < Time b \<and> (k = a \<or> k = b)"
  using assms
proof (induction "Time k" kfs rule: find_bracket.induct)
  case (1 a b rest)
  from "1.prems"(1) have ab: "Time a < Time b"
    by simp
  show ?case
  proof (cases "k = a \<or> k = b")
    case True
    with ab have "Time k \<ge> Time a \<and> Time k \<le> Time b"
      by auto
    with True ab show ?thesis
      by auto
  next
    case False
    with "1.prems"(2) have mem: "k \<in> set rest"
      by simp
    with "1.prems"(1) have later: "Time b < Time k"
      by auto
    then have go: "\<not> (Time k \<ge> Time a \<and> Time k \<le> Time b)"
      by simp
    from mem have len: "2 \<le> length (b # rest)"
      by (cases rest) simp_all
    from "1.prems"(1) have sorted: "sorted_wrt (<) (map Time (b # rest))"
      by simp
    from mem have "k \<in> set (b # rest)"
      by simp
    from later have "find_bracket (Time k) (a # b # rest) = find_bracket (Time k) (b # rest)"
      by simp
    with "1.hyps" [OF go sorted \<open>k \<in> set (b # rest)\<close> len] show ?thesis
      by simp
  qed
qed simp_all

lemma sorted_times_first:
  assumes "sorted_wrt (<) (map Time kfs)" and "k \<in> set kfs"
  shows "Time (kfs ! 0) \<le> Time k"
proof (cases kfs)
  case Nil
  with assms show ?thesis by simp
next
  case (Cons a rest)
  with assms show ?thesis by auto
qed

lemma sorted_times_last:
  assumes "sorted_wrt (<) (map Time kfs)" and "k \<in> set kfs"
  shows "Time k \<le> Time (kfs ! (length kfs - 1))"
proof -
  from assms(2) obtain i where i: "i < length kfs" "kfs ! i = k"
    by (auto simp add: in_set_conv_nth)
  show ?thesis
  proof (cases "i = length kfs - 1")
    case True
    with i show ?thesis by simp
  next
    case False
    with i have lt: "i < length kfs - 1" "length kfs - 1 < length kfs"
      by simp_all
    from assms(1) lt have "map Time kfs ! i < map Time kfs ! (length kfs - 1)"
      by (simp add: sorted_wrt_iff_nth_less)
    with i lt show ?thesis
      by simp
  qed
qed

lemma interpolateVector_at_keyframe:
  assumes sorted: "sorted_wrt (<) (map Time (Keyframes cp))"
    and smooth: "fixes_ends (SmoothFunction cp)"
    and mem: "k \<in> set (Keyframes cp)"
  shows "interpolateVector cp (Time k) getter = Some (getter k)"
proof -
  let ?kfs = "Keyframes cp"
  from mem have ne: "length ?kfs \<noteq> 0"
    by (cases ?kfs) simp_all
  show ?thesis
  proof (cases "length ?kfs = 1")
    case True
    with mem have "?kfs ! 0 = k"
      by (cases ?kfs) simp_all
    with True ne show ?thesis
      by (simp add: interpolateVector_def Let_def del: length_0_conv)
  next
    case False
    with ne have len: "2 \<le> length ?kfs"
      by linarith
    from find_bracket_at_keyframe [OF sorted mem len]
    obtain a b where br: "find_bracket (Time k) ?kfs = (a, b)"
      and ab: "Time a < Time b" and kab: "k = a \<or> k = b"
      by blast
    have lo: "\<not> Time k < Time (?kfs ! 0)"
      using sorted_times_first [OF sorted mem] by simp
    have hi: "\<not> Time k > Time (?kfs ! (length ?kfs - 1))"
      using sorted_times_last [OF sorted mem] by simp
    from ab have nz: "Time b - Time a \<noteq> 0"
      by simp
    from kab show ?thesis
    proof
      assume "k = a"
      then have "(Time k - Time a) / (Time b - Time a) = 0"
        by simp
      with ne False lo hi nz br \<open>k = a\<close> smooth_ends(1) [OF smooth] show ?thesis
        by (simp add: interpolateVector_def Let_def lerp_ends)
    next
      assume "k = b"
      with nz have "(Time k - Time a) / (Time b - Time a) = 1"
        by simp
      with ne False lo hi nz br \<open>k = b\<close> smooth_ends(2) [OF smooth] show ?thesis
        by (simp add: interpolateVector_def Let_def lerp_ends)
    qed
  qed
qed

lemma interpolateFloat_at_keyframe:
  assumes sorted: "sorted_wrt (<) (map Time (Keyframes cp))"
    and smooth: "fixes_ends (SmoothFunction cp)"
    and mem: "k \<in> set (Keyframes cp)"
  shows "interpolateFloat cp (Time k) getter = Some (getter k)"
proof -
  let ?kfs = "Keyframes cp"
  from mem have ne: "length ?kfs \<noteq> 0"
    by (cases ?kfs) simp_all
  show ?thesis
  proof (cases "length ?kfs = 1")
    case True
    with mem have "?kfs ! 0 = k"
      by (cases ?kfs) simp_all
    with True ne show ?thesis
      by (simp add: interpolateFloat_def Let_def del: length_0_conv)
  next
    case False
    with ne have len: "2 \<le> length ?kfs"
      by linarith
    from find_bracket_at_keyframe [OF sorted mem len]
    obtain a b where br: "find_bracket (Time k) ?kfs = (a, b)"
      and ab: "Time a < Time b" and kab: "k = a \<or> k = b"
      by blast
    have lo: "\<not> Time k < Time (?kfs ! 0)"
      using sorted_times_first [OF sorted mem] by simp
    have hi: "\<not> Time k > Time (?kfs ! (length ?kfs - 1))"
      using sorted_times_last [OF sorted mem] by simp
    from ab have nz: "Time b - Time a \<noteq> 0"
      by simp
    from kab show ?thesis
    proof
      assume "k = a"
      then have "(Time k - Time a) / (Time b - Time a) = 0"
        by simp
      with ne False lo hi nz br \<open>k = a\<close> smooth_ends(1) [OF smooth] show ?thesis
        by (simp add: interpolateFloat_def Let_def)
    next
      assume "k = b"
      with nz have "(Time k - Time a) / (Time b - Time a) = 1"
        by simp
      with ne False lo hi nz br \<open>k = b\<close> smooth_ends(2) [OF smooth] show ?thesis
        by (simp add: interpolateFloat_def Let_def)
    qed
  qed
qed

lemma interpolateVector_before_first:
  assumes "Keyframes cp \<noteq> []" and "t < Time (hd (Keyframes cp))"
  shows "interpolateVector cp t getter = Some (getter (hd (Keyframes cp)))"
  using assms
  by (simp add: interpolateVector_def Let_def hd_conv_nth split: prod.splits)

lemma interpolateFloat_before_first:
  assumes "Keyframes cp \<noteq> []" and "t < Time (hd (Keyframes cp))"
  shows "interpolateFloat cp t getter = Some (getter (hd (Keyframes cp)))"
  using assms
  by (simp add: interpolateFloat_def Let_def hd_conv_nth split: prod.splits)

lemma interpolateVector_after_last:
  assumes "Keyframes cp \<noteq> []" and "t > Time (last (Keyframes cp))"
    and "\<not> t < Time (hd (Keyframes cp))"
  shows "interpolateVector cp t getter = Some (getter (last (Keyframes cp)))"
  using assms
  by (simp add: interpolateVector_def Let_def last_conv_nth hd_conv_nth split: prod.splits)

lemma interpolateFloat_after_last:
  assumes "Keyframes cp \<noteq> []" and "t > Time (last (Keyframes cp))"
    and "\<not> t < Time (hd (Keyframes cp))"
  shows "interpolateFloat cp t getter = Some (getter (last (Keyframes cp)))"
  using assms
  by (simp add: interpolateFloat_def Let_def last_conv_nth hd_conv_nth split: prod.splits)

text \<open>
  Claim C5, as the source has it, in three parts, each under the conditions it needs.
  When the keyframe times are strictly increasing and the smoothing function is absent or
  maps 0 to 0 and 1 to 1, evaluation at the time of a keyframe gives that keyframe's
  position, target and field of view exactly. For every path with a keyframe, evaluation
  strictly before the time of the first keyframe gives the first keyframe's values, and
  evaluation strictly after the time of the last keyframe, at a time that is not before
  the time of the first keyframe, gives the last keyframe's values: the two tests of the
  source come before the interpolation, the test against the first keyframe first.
\<close>

theorem keyframe_path_exact_and_clamped:
  "(sorted_wrt (<) (map Time (Keyframes cp)) \<and> fixes_ends (SmoothFunction cp) \<longrightarrow>
      (\<forall>k \<in> set (Keyframes cp).
         GetPosition cp (Time k) = Some (Position_kf k) \<and>
         GetTarget cp (Time k) = Some (Target_kf k) \<and>
         GetFOV cp (Time k) = Some (FOV_kf k))) \<and>
   (Keyframes cp \<noteq> [] \<longrightarrow>
      (\<forall>t. t < Time (hd (Keyframes cp)) \<longrightarrow>
         GetPosition cp t = Some (Position_kf (hd (Keyframes cp))) \<and>
         GetTarget cp t = Some (Target_kf (hd (Keyframes cp))) \<and>
         GetFOV cp t = Some (FOV_kf (hd (Keyframes cp)))) \<and>
      (\<forall>t. t > Time (last (Keyframes cp)) \<and> \<not> t < Time (hd (Keyframes cp)) \<longrightarrow>
         GetPosition cp t = Some (Position_kf (last (Keyframes cp))) \<and>
         GetTarget cp t = Some (Target_kf (last (Keyframes cp))) \<and>
         GetFOV cp t = Some (FOV_kf (last (Keyframes cp)))))"
proof (intro conjI ballI impI allI)
  fix k assume "sorted_wrt (<) (map Time (Keyframes cp)) \<and> fixes_ends (SmoothFunction cp)"
    and "k \<in> set (Keyframes cp)"
  then show "GetPosition cp (Time k) = Some (Position_kf k)"
    and "GetTarget cp (Time k) = Some (Target_kf k)"
    and "GetFOV cp (Time k) = Some (FOV_kf k)"
    by (simp_all add: GetPosition_def GetTarget_def GetFOV_def
        interpolateVector_at_keyframe interpolateFloat_at_keyframe)
next
  fix t assume "Keyframes cp \<noteq> []" and "t < Time (hd (Keyframes cp))"
  then show "GetPosition cp t = Some (Position_kf (hd (Keyframes cp)))"
    and "GetTarget cp t = Some (Target_kf (hd (Keyframes cp)))"
    and "GetFOV cp t = Some (FOV_kf (hd (Keyframes cp)))"
    by (simp_all add: GetPosition_def GetTarget_def GetFOV_def
        interpolateVector_before_first interpolateFloat_before_first)
next
  fix t assume "Keyframes cp \<noteq> []"
    and "t > Time (last (Keyframes cp)) \<and> \<not> t < Time (hd (Keyframes cp))"
  then show "GetPosition cp t = Some (Position_kf (last (Keyframes cp)))"
    and "GetTarget cp t = Some (Target_kf (last (Keyframes cp)))"
    and "GetFOV cp t = Some (FOV_kf (last (Keyframes cp)))"
    by (simp_all add: GetPosition_def GetTarget_def GetFOV_def
        interpolateVector_after_last interpolateFloat_after_last)
qed

text \<open>
  The witness evaluates a path with strictly increasing times and the default smoothing
  at its middle keyframe and after its last keyframe, and a path whose times decrease
  before its first keyframe.
\<close>

theorem keyframe_path_exact_and_clamped_witness:
  "sorted_wrt (<) (map Time (Keyframes (NewInterpolatedCameraPath
        [\<lparr>Time = 0, Position_kf = \<lparr>X = 0, Y = 0, Z = - 5\<rparr>,
          Target_kf = \<lparr>X = 0, Y = 0, Z = 0\<rparr>, FOV_kf = 1\<rparr>,
         \<lparr>Time = 1 / 2, Position_kf = \<lparr>X = 5, Y = 2, Z = 0\<rparr>,
          Target_kf = \<lparr>X = 0, Y = 1, Z = 0\<rparr>, FOV_kf = 3 / 2\<rparr>,
         \<lparr>Time = 1, Position_kf = \<lparr>X = 0, Y = 0, Z = 5\<rparr>,
          Target_kf = \<lparr>X = 0, Y = 0, Z = 0\<rparr>, FOV_kf = 2\<rparr>]))) \<and>
   fixes_ends (SmoothFunction (NewInterpolatedCameraPath
        [\<lparr>Time = 0, Position_kf = \<lparr>X = 0, Y = 0, Z = - 5\<rparr>,
          Target_kf = \<lparr>X = 0, Y = 0, Z = 0\<rparr>, FOV_kf = 1\<rparr>,
         \<lparr>Time = 1 / 2, Position_kf = \<lparr>X = 5, Y = 2, Z = 0\<rparr>,
          Target_kf = \<lparr>X = 0, Y = 1, Z = 0\<rparr>, FOV_kf = 3 / 2\<rparr>,
         \<lparr>Time = 1, Position_kf = \<lparr>X = 0, Y = 0, Z = 5\<rparr>,
          Target_kf = \<lparr>X = 0, Y = 0, Z = 0\<rparr>, FOV_kf = 2\<rparr>])) \<and>
   GetPosition (NewInterpolatedCameraPath
        [\<lparr>Time = 0, Position_kf = \<lparr>X = 0, Y = 0, Z = - 5\<rparr>,
          Target_kf = \<lparr>X = 0, Y = 0, Z = 0\<rparr>, FOV_kf = 1\<rparr>,
         \<lparr>Time = 1 / 2, Position_kf = \<lparr>X = 5, Y = 2, Z = 0\<rparr>,
          Target_kf = \<lparr>X = 0, Y = 1, Z = 0\<rparr>, FOV_kf = 3 / 2\<rparr>,
         \<lparr>Time = 1, Position_kf = \<lparr>X = 0, Y = 0, Z = 5\<rparr>,
          Target_kf = \<lparr>X = 0, Y = 0, Z = 0\<rparr>, FOV_kf = 2\<rparr>]) (1 / 2)
     = Some \<lparr>X = 5, Y = 2, Z = 0\<rparr> \<and>
   GetTarget (NewInterpolatedCameraPath
        [\<lparr>Time = 0, Position_kf = \<lparr>X = 0, Y = 0, Z = - 5\<rparr>,
          Target_kf = \<lparr>X = 0, Y = 0, Z = 0\<rparr>, FOV_kf = 1\<rparr>,
         \<lparr>Time = 1 / 2, Position_kf = \<lparr>X = 5, Y = 2, Z = 0\<rparr>,
          Target_kf = \<lparr>X = 0, Y = 1, Z = 0\<rparr>, FOV_kf = 3 / 2\<rparr>,
         \<lparr>Time = 1, Position_kf = \<lparr>X = 0, Y = 0, Z = 5\<rparr>,
          Target_kf = \<lparr>X = 0, Y = 0, Z = 0\<rparr>, FOV_kf = 2\<rparr>]) 7
     = Some \<lparr>X = 0, Y = 0, Z = 0\<rparr> \<and>
   GetFOV (NewInterpolatedCameraPath
        [\<lparr>Time = 1, Position_kf = \<lparr>X = 0, Y = 0, Z = 0\<rparr>,
          Target_kf = \<lparr>X = 0, Y = 0, Z = 0\<rparr>, FOV_kf = 1\<rparr>,
         \<lparr>Time = 0, Position_kf = \<lparr>X = 0, Y = 0, Z = 0\<rparr>,
          Target_kf = \<lparr>X = 0, Y = 0, Z = 0\<rparr>, FOV_kf = 2\<rparr>]) (- 1)
     = Some 1"
proof -
  let ?k0 = "\<lparr>Time = 0, Position_kf = \<lparr>X = 0, Y = 0, Z = - 5\<rparr>,
        Target_kf = \<lparr>X = 0, Y = 0, Z = 0\<rparr>, FOV_kf = 1\<rparr>"
  let ?k1 = "\<lparr>Time = 1 / 2, Position_kf = \<lparr>X = 5, Y = 2, Z = 0\<rparr>,
        Target_kf = \<lparr>X = 0, Y = 1, Z = 0\<rparr>, FOV_kf = 3 / 2\<rparr>"
  let ?k2 = "\<lparr>Time = 1, Position_kf = \<lparr>X = 0, Y = 0, Z = 5\<rparr>,
        Target_kf = \<lparr>X = 0, Y = 0, Z = 0\<rparr>, FOV_kf = 2\<rparr>"
  let ?cp = "NewInterpolatedCameraPath [?k0, ?k1, ?k2]"
  let ?cp2 = "(NewInterpolatedCameraPath
        [\<lparr>Time = 1, Position_kf = \<lparr>X = 0, Y = 0, Z = 0\<rparr>,
          Target_kf = \<lparr>X = 0, Y = 0, Z = 0\<rparr>, FOV_kf = 1\<rparr>,
         \<lparr>Time = 0, Position_kf = \<lparr>X = 0, Y = 0, Z = 0\<rparr>,
          Target_kf = \<lparr>X = 0, Y = 0, Z = 0\<rparr>, FOV_kf = 2\<rparr>])"
  have kfs: "Keyframes ?cp = [?k0, ?k1, ?k2]"
    by (simp add: NewInterpolatedCameraPath_def)
  have kfs2: "Keyframes ?cp2 \<noteq> []" "Time (hd (Keyframes ?cp2)) = 1"
    "FOV_kf (hd (Keyframes ?cp2)) = 1"
    by (simp_all add: NewInterpolatedCameraPath_def)
  have sorted: "sorted_wrt (<) (map Time (Keyframes ?cp))"
    by (simp add: kfs)
  have smooth: "fixes_ends (SmoothFunction ?cp)"
    by (simp add: NewInterpolatedCameraPath_def fixes_ends_def Smoothstep_ends)
  note main = keyframe_path_exact_and_clamped [of ?cp]
  note main2 = keyframe_path_exact_and_clamped [of ?cp2]
  from main sorted smooth have "\<forall>k \<in> set (Keyframes ?cp).
      GetPosition ?cp (Time k) = Some (Position_kf k)"
    by blast
  then have "GetPosition ?cp (Time ?k1) = Some (Position_kf ?k1)"
    unfolding kfs by simp
  then have at: "GetPosition ?cp (1 / 2) = Some \<lparr>X = 5, Y = 2, Z = 0\<rparr>"
    by simp
  have ne: "Keyframes ?cp \<noteq> []"
    by (simp add: kfs)
  from main ne have "7 > Time (last (Keyframes ?cp)) \<and> \<not> 7 < Time (hd (Keyframes ?cp)) \<longrightarrow>
      GetTarget ?cp 7 = Some (Target_kf (last (Keyframes ?cp)))"
    by blast
  then have after: "GetTarget ?cp 7 = Some \<lparr>X = 0, Y = 0, Z = 0\<rparr>"
    by (simp add: kfs)
  from main2 kfs2(1) have "(- 1) < Time (hd (Keyframes ?cp2)) \<longrightarrow>
      GetFOV ?cp2 (- 1) = Some (FOV_kf (hd (Keyframes ?cp2)))"
    by blast
  then have before: "GetFOV ?cp2 (- 1) = Some 1"
    by (simp add: kfs2)
  from sorted smooth at after before show ?thesis
    by blast
qed

text \<open>
  The claim as the specification words it, for every path, does not hold. Four paths show
  what the source does instead.
  \<^item> Keyframes at times 0, 1, 1/2 with fields of view 1, 2, 5 and the default smoothing:
    at time 1/2, the time of the third keyframe, the search stops at the first pair and
    interpolates to 3/2.
  \<^item> Twice the same keyframe, at time 1 with field of view 2: at time 1 the source divides
    zero by zero and returns NaN (\<open>None\<close> in the model).
  \<^item> Keyframes at times 0 and 1 with fields of view 10 and 20 and the constant smoothing
    function 1/2: at time 0 the result is 15.
  \<^item> Keyframes at times 1 and 0 with fields of view 1 and 2: time 1/2 is after the time
    of the last keyframe, and the result is the first keyframe's 1.
\<close>

theorem keyframe_path_counterexample:
  "\<lparr>Time = 1 / 2, Position_kf = \<lparr>X = 0, Y = 0, Z = 0\<rparr>,
            Target_kf = \<lparr>X = 0, Y = 0, Z = 0\<rparr>, FOV_kf = 5\<rparr> \<in> set (Keyframes (NewInterpolatedCameraPath
          [\<lparr>Time = 0, Position_kf = \<lparr>X = 0, Y = 0, Z = 0\<rparr>,
            Target_kf = \<lparr>X = 0, Y = 0, Z = 0\<rparr>, FOV_kf = 1\<rparr>,
           \<lparr>Time = 1, Position_kf = \<lparr>X = 0, Y = 0, Z = 0\<rparr>,
            Target_kf = \<lparr>X = 0, Y = 0, Z = 0\<rparr>, FOV_kf = 2\<rparr>,
           \<lparr>Time = 1 / 2, Position_kf = \<lparr>X = 0, Y = 0, Z = 0\<rparr>,
            Target_kf = \<lparr>X = 0, Y = 0, Z = 0\<rparr>, FOV_kf = 5\<rparr>])) \<and>
   GetFOV (NewInterpolatedCameraPath
          [\<lparr>Time = 0, Position_kf = \<lparr>X = 0, Y = 0, Z = 0\<rparr>,
            Target_kf = \<lparr>X = 0, Y = 0, Z = 0\<rparr>, FOV_kf = 1\<rparr>,
           \<lparr>Time = 1, Position_kf = \<lparr>X = 0, Y = 0, Z = 0\<rparr>,
            Target_kf = \<lparr>X = 0, Y = 0, Z = 0\<rparr>, FOV_kf = 2\<rparr>,
           \<lparr>Time = 1 / 2, Position_kf = \<lparr>X = 0, Y = 0, Z = 0\<rparr>,
            Target_kf = \<lparr>X = 0, Y = 0, Z = 0\<rparr>, FOV_kf = 5\<rparr>]) (Time \<lparr>Time = 1 / 2, Position_kf = \<lparr>X = 0, Y = 0, Z = 0\<rparr>,
            Target_kf = \<lparr>X = 0, Y = 0, Z = 0\<rparr>, FOV_kf = 5\<rparr>) = Some (3 / 2) \<and>
   Some (3 / 2 :: real) \<noteq> Some (FOV_kf \<lparr>Time = 1 / 2, Position_kf = \<lparr>X = 0, Y = 0, Z = 0\<rparr>,
            Target_kf = \<lparr>X = 0, Y = 0, Z = 0\<rparr>, FOV_kf = 5\<rparr>) \<and>
   \<lparr>Time = 1, Position_kf = \<lparr>X = 0, Y = 0, Z = 0\<rparr>,
            Target_kf = \<lparr>X = 0, Y = 0, Z = 0\<rparr>, FOV_kf = 2\<rparr> \<in> set (Keyframes (NewInterpolatedCameraPath
          [\<lparr>Time = 1, Position_kf = \<lparr>X = 0, Y = 0, Z = 0\<rparr>,
            Target_kf = \<lparr>X = 0, Y = 0, Z = 0\<rparr>, FOV_kf = 2\<rparr>,
           \<lparr>Time = 1, Position_kf = \<lparr>X = 0, Y = 0, Z = 0\<rparr>,
            Target_kf = \<lparr>X = 0, Y = 0, Z = 0\<rparr>, FOV_kf = 2\<rparr>])) \<and>
   GetFOV (NewInterpolatedCameraPath
          [\<lparr>Time = 1, Position_kf = \<lparr>X = 0, Y = 0, Z = 0\<rparr>,
            Target_kf = \<lparr>X = 0, Y = 0, Z = 0\<rparr>, FOV_kf = 2\<rparr>,
           \<lparr>Time = 1, Position_kf = \<lparr>X = 0, Y = 0, Z = 0\<rparr>,
            Target_kf = \<lparr>X = 0, Y = 0, Z = 0\<rparr>, FOV_kf = 2\<rparr>]) (Time \<lparr>Time = 1, Position_kf = \<lparr>X = 0, Y = 0, Z = 0\<rparr>,
            Target_kf = \<lparr>X = 0, Y = 0, Z = 0\<rparr>, FOV_kf = 2\<rparr>) = None \<and>
   None \<noteq> Some (FOV_kf \<lparr>Time = 1, Position_kf = \<lparr>X = 0, Y = 0, Z = 0\<rparr>,
            Target_kf = \<lparr>X = 0, Y = 0, Z = 0\<rparr>, FOV_kf = 2\<rparr>) \<and>
   \<lparr>Time = 0, Position_kf = \<lparr>X = 0, Y = 0, Z = 0\<rparr>,
            Target_kf = \<lparr>X = 0, Y = 0, Z = 0\<rparr>, FOV_kf = 10\<rparr> \<in> set (Keyframes \<lparr>Keyframes =
          [\<lparr>Time = 0, Position_kf = \<lparr>X = 0, Y = 0, Z = 0\<rparr>,
            Target_kf = \<lparr>X = 0, Y = 0, Z = 0\<rparr>, FOV_kf = 10\<rparr>,
           \<lparr>Time = 1, Position_kf = \<lparr>X = 0, Y = 0, Z = 0\<rparr>,
            Target_kf = \<lparr>X = 0, Y = 0, Z = 0\<rparr>, FOV_kf = 20\<rparr>],
          SmoothFunction = Some (\<lambda>x. 1 / 2)\<rparr>) \<and>
   GetFOV \<lparr>Keyframes =
          [\<lparr>Time = 0, Position_kf = \<lparr>X = 0, Y = 0, Z = 0\<rparr>,
            Target_kf = \<lparr>X = 0, Y = 0, Z = 0\<rparr>, FOV_kf = 10\<rparr>,
           \<lparr>Time = 1, Position_kf = \<lparr>X = 0, Y = 0, Z = 0\<rparr>,
            Target_kf = \<lparr>X = 0, Y = 0, Z = 0\<rparr>, FOV_kf = 20\<rparr>],
          SmoothFunction = Some (\<lambda>x. 1 / 2)\<rparr> (Time \<lparr>Time = 0, Position_kf = \<lparr>X = 0, Y = 0, Z = 0\<rparr>,
            Target_kf = \<lparr>X = 0, Y = 0, Z = 0\<rparr>, FOV_kf = 10\<rparr>) = Some 15 \<and>
   Some (15 :: real) \<noteq> Some (FOV_kf \<lparr>Time = 0, Position_kf = \<lparr>X = 0, Y = 0, Z = 0\<rparr>,
            Target_kf = \<lparr>X = 0, Y = 0, Z = 0\<rparr>, FOV_kf = 10\<rparr>) \<and>
   (1 / 2 :: real) > Time (last (Keyframes (NewInterpolatedCameraPath
          [\<lparr>Time = 1, Position_kf = \<lparr>X = 0, Y = 0, Z = 0\<rparr>,
            Target_kf = \<lparr>X = 0, Y = 0, Z = 0\<rparr>, FOV_kf = 1\<rparr>,
           \<lparr>Time = 0, Position_kf = \<lparr>X = 0, Y = 0, Z = 0\<rparr>,
            Target_kf = \<lparr>X = 0, Y = 0, Z = 0\<rparr>, FOV_kf = 2\<rparr>]))) \<and>
   GetFOV (NewInterpolatedCameraPath
          [\<lparr>Time = 1, Position_kf = \<lparr>X = 0, Y = 0, Z = 0\<rparr>,
            Target_kf = \<lparr>X = 0, Y = 0, Z = 0\<rparr>, FOV_kf = 1\<rparr>,
           \<lparr>Time = 0, Position_kf = \<lparr>X = 0, Y = 0, Z = 0\<rparr>,
            Target_kf = \<lparr>X = 0, Y = 0, Z = 0\<rparr>, FOV_kf = 2\<rparr>]) (1 / 2) = Some 1 \<and>
   Some (1 :: real) \<noteq> Some (FOV_kf (last (Keyframes (NewInterpolatedCameraPath
          [\<lparr>Time = 1, Position_kf = \<lparr>X = 0, Y = 0, Z = 0\<rparr>,
            Target_kf = \<lparr>X = 0, Y = 0, Z = 0\<rparr>, FOV_kf = 1\<rparr>,
           \<lparr>Time = 0, Position_kf = \<lparr>X = 0, Y = 0, Z = 0\<rparr>,
            Target_kf = \<lparr>X = 0, Y = 0, Z = 0\<rparr>, FOV_kf = 2\<rparr>]))))"
  by (simp add: NewInterpolatedCameraPath_def GetFOV_def interpolateFloat_def
      Let_def Smoothstep_def)

section \<open>Properties of the renderer\<close>

text \<open>The default camera of \<open>NewRenderer\<close>, on an 800 by 600 surface.\<close>

lemma Normalize_axis:
  "Normalize \<lparr>X = 0, Y = 0, Z = 1\<rparr> = \<lparr>X = 0, Y = 0, Z = 1\<rparr>"
  "Normalize \<lparr>X = - 1, Y = 0, Z = 0\<rparr> = \<lparr>X = - 1, Y = 0, Z = 0\<rparr>"
  "Normalize \<lparr>X = 0, Y = 1, Z = 0\<rparr> = \<lparr>X = 0, Y = 1, Z = 0\<rparr>"
  "Normalize \<lparr>X = 0, Y = 0, Z = 5\<rparr> = \<lparr>X = 0, Y = 0, Z = 1\<rparr>"
  by (simp_all add: Normalize_def Length_def Scale_def epsilon_def sqrt_twenty_five)

lemma Length_axis:
  "Length \<lparr>X = 0, Y = 0, Z = 1\<rparr> = 1"
  "Length \<lparr>X = - 1, Y = 0, Z = 0\<rparr> = 1"
  by (simp_all add: Length_def)

lemma LookAt_NewCamera:
  "LookAt (Position NewCamera) (Target NewCamera) (Up NewCamera) =
     Matrix4 (- 1) 0 0 0  0 1 0 0  0 0 (- 1) (- 5)  0 0 0 1"
  by (simp add: LookAt_def NewCamera_def NewVector3_def Sub_def Cross_def Dot_def
      Normalize_axis Length_axis epsilon_def Let_def)

lemma Perspective_NewCamera_rows:
  "m8 (Perspective (FOV NewCamera) (4 / 3) (Near NewCamera) (Far NewCamera)) = 0"
  "m9 (Perspective (FOV NewCamera) (4 / 3) (Near NewCamera) (Far NewCamera)) = 0"
  "m10 (Perspective (FOV NewCamera) (4 / 3) (Near NewCamera) (Far NewCamera)) = - (1001 / 999)"
  "m11 (Perspective (FOV NewCamera) (4 / 3) (Near NewCamera) (Far NewCamera)) = - (200 / 999)"
  "m12 (Perspective (FOV NewCamera) (4 / 3) (Near NewCamera) (Far NewCamera)) = 0"
  "m13 (Perspective (FOV NewCamera) (4 / 3) (Near NewCamera) (Far NewCamera)) = 0"
  "m14 (Perspective (FOV NewCamera) (4 / 3) (Near NewCamera) (Far NewCamera)) = - 1"
  "m15 (Perspective (FOV NewCamera) (4 / 3) (Near NewCamera) (Far NewCamera)) = 0"
  by (simp_all add: Perspective_def NewCamera_def epsilon_def Let_def)

lemma ProjectToScreen_z:
  assumes "\<bar>Z v + 5\<bar> > epsilon" and "\<bar>Z v + 4\<bar> > epsilon"
  shows "snd (snd (ProjectToScreen (NewRenderer 800 600) v))
         = (1001 * (Z v + 5) - 200) / (999 * (Z v + 5))"
proof -
  have view: "TransformVector (Matrix4 (- 1) 0 0 0  0 1 0 0  0 0 (- 1) (- 5)  0 0 0 1) v
      = \<lparr>X = - X v, Y = Y v, Z = - Z v - 5\<rparr>"
    by (simp add: TransformVector_def epsilon_def)
  have cam: "Camera (NewRenderer 800 600) = NewCamera" "Width (NewRenderer 800 600) = 800"
     "Height (NewRenderer 800 600) = 600"
    by (simp_all add: NewRenderer_def)
  let ?P = "Perspective (FOV NewCamera) (4 / 3) (Near NewCamera) (Far NewCamera)"
  from assms have w: "\<bar>- (- Z v - 5)\<bar> > epsilon" "\<bar>- (- Z v - 5) - 1\<bar> > epsilon"
    by simp_all
  have pz: "Z (TransformVector ?P \<lparr>X = - X v, Y = Y v, Z = - Z v - 5\<rparr>)
        = (- (1001 / 999) * (- Z v - 5) + - (200 / 999)) / (- (- Z v - 5))"
    using w by (simp add: TransformVector_def Perspective_NewCamera_rows Let_def)
  also have "\<dots> = (1001 * (Z v + 5) - 200) / (999 * (Z v + 5))"
    using assms(1) by (simp add: field_simps)
  finally have "Z (TransformVector ?P \<lparr>X = - X v, Y = Y v, Z = - Z v - 5\<rparr>)
      = (1001 * (Z v + 5) - 200) / (999 * (Z v + 5))" .
  then show ?thesis
    by (simp add: ProjectToScreen_def cam LookAt_NewCamera view Let_def)
qed

lemma sqrt_thirty_six: "sqrt 36 = 6"
  by (rule real_sqrt_unique) simp_all

lemma drawFlat_entry_z:
  "drawFlat_entry r col t =
     (let z0 = snd (snd (ProjectToScreen r (V0 t)));
          z1 = snd (snd (ProjectToScreen r (V1 t)));
          z2 = snd (snd (ProjectToScreen r (V2 t)))
      in if z0 < - 1 \<or> z1 < - 1 \<or> z2 < - 1 then None
         else Some \<lparr>tri = t, depth = (z0 + z1 + z2) / 3, color = col\<rparr>)"
  by (simp add: drawFlat_entry_def Let_def split: prod.splits)

lemma drawWireframe_triangle_z:
  "snd (snd (ProjectToScreen r (V0 t))) > 1 \<Longrightarrow> drawWireframe_triangle r t = []"
  by (auto simp add: drawWireframe_triangle_def split: prod.splits)

lemma ProjectToScreen_z_values:
  "snd (snd (ProjectToScreen (NewRenderer 800 600) \<lparr>X = x, Y = y, Z = - 10\<rparr>)) = 347 / 333"
  "snd (snd (ProjectToScreen (NewRenderer 800 600) \<lparr>X = x, Y = y, Z = 0\<rparr>)) = 961 / 999"
  "snd (snd (ProjectToScreen (NewRenderer 800 600) \<lparr>X = x, Y = y, Z = 5\<rparr>)) = 109 / 111"
  by (simp_all add: ProjectToScreen_z epsilon_def)

lemma behind_flat:
  "drawFlat_triangles (NewRenderer 800 600)
      \<lparr>Vertices = [], Triangles =
         [\<lparr>V0 = \<lparr>X = - 1, Y = - 1, Z = - 10\<rparr>, V1 = \<lparr>X = 1, Y = - 1, Z = - 10\<rparr>,
           V2 = \<lparr>X = 0, Y = 2, Z = - 10\<rparr>\<rparr>]\<rparr> (1, 0, 0)
   = [\<lparr>tri = \<lparr>V0 = \<lparr>X = - 1, Y = - 1, Z = - 10\<rparr>, V1 = \<lparr>X = 1, Y = - 1, Z = - 10\<rparr>,
           V2 = \<lparr>X = 0, Y = 2, Z = - 10\<rparr>\<rparr>, depth = 347 / 333, color = (1, 0, 0)\<rparr>]"
  by (simp add: drawFlat_triangles_def List.map_filter_simps drawFlat_entry_z
      ProjectToScreen_z_values)

lemma behind_wire:
  "drawWireframe (NewRenderer 800 600)
      \<lparr>Vertices = [], Triangles =
         [\<lparr>V0 = \<lparr>X = - 1, Y = - 1, Z = - 10\<rparr>, V1 = \<lparr>X = 1, Y = - 1, Z = - 10\<rparr>,
           V2 = \<lparr>X = 0, Y = 2, Z = - 10\<rparr>\<rparr>]\<rparr> (1, 0, 0)
   = [Save, SetSourceRGB 1 0 0, SetLineWidth (3 / 2), SetLineJoinRound, Restore]"
  by (simp add: drawWireframe_def drawWireframe_triangle_z ProjectToScreen_z_values)

lemma Normal_behind:
  "Normal \<lparr>V0 = \<lparr>X = - 1, Y = - 1, Z = z\<rparr>, V1 = \<lparr>X = 1, Y = - 1, Z = z\<rparr>,
           V2 = \<lparr>X = 0, Y = 2, Z = z\<rparr>\<rparr> = \<lparr>X = 0, Y = 0, Z = 1\<rparr>"
  by (simp add: Normal_def Sub_def Cross_def Length_def Normalize_def Scale_def
      sqrt_thirty_six epsilon_def)

lemma Center_behind:
  "Center \<lparr>V0 = \<lparr>X = - 1, Y = - 1, Z = z\<rparr>, V1 = \<lparr>X = 1, Y = - 1, Z = z\<rparr>,
           V2 = \<lparr>X = 0, Y = 2, Z = z\<rparr>\<rparr> = \<lparr>X = 0, Y = 0, Z = z\<rparr>"
  by (simp add: Center_def Add_def Scale_def)

lemma drawShaded_entry_z:
  "drawShaded_entry r col t =
     (let z0 = snd (snd (ProjectToScreen r (V0 t)));
          z1 = snd (snd (ProjectToScreen r (V1 t)));
          z2 = snd (snd (ProjectToScreen r (V2 t)))
      in if z0 < - 1 \<or> z1 < - 1 \<or> z2 < - 1 then None
         else if Dot (Normal t) (Normalize (Sub (Position (Camera r)) (Center t))) < 0 then None
         else Some \<lparr>tri = t, depth = (z0 + z1 + z2) / 3,
                     color = CalculateLighting r (Center t) (Normal t) col\<rparr>)"
  by (simp add: drawShaded_entry_def Let_def split: prod.splits)

lemma behind_shaded:
  "drawShaded_triangles (NewRenderer 800 600)
      \<lparr>Vertices = [], Triangles =
         [\<lparr>V0 = \<lparr>X = - 1, Y = - 1, Z = - 10\<rparr>, V1 = \<lparr>X = 1, Y = - 1, Z = - 10\<rparr>,
           V2 = \<lparr>X = 0, Y = 2, Z = - 10\<rparr>\<rparr>]\<rparr> (1, 0, 0)
   = [\<lparr>tri = \<lparr>V0 = \<lparr>X = - 1, Y = - 1, Z = - 10\<rparr>, V1 = \<lparr>X = 1, Y = - 1, Z = - 10\<rparr>,
           V2 = \<lparr>X = 0, Y = 2, Z = - 10\<rparr>\<rparr>, depth = 347 / 333, color = (1, 0, 0)\<rparr>]"
proof -
  have cam: "Position (Camera (NewRenderer 800 600)) = \<lparr>X = 0, Y = 0, Z = - 5\<rparr>"
    "Lights (NewRenderer 800 600) = []"
    by (simp_all add: NewRenderer_def NewCamera_def NewVector3_def)
  have view: "Normalize (Sub \<lparr>X = 0, Y = 0, Z = - 5\<rparr> \<lparr>X = 0, Y = 0, Z = - 10\<rparr>)
     = \<lparr>X = 0, Y = 0, Z = 1\<rparr>"
    by (simp add: Sub_def Normalize_axis)
  show ?thesis
    by (simp add: drawShaded_triangles_def List.map_filter_simps drawShaded_entry_z
      ProjectToScreen_z_values Normal_behind Center_behind cam view Dot_def
      CalculateLighting_def)
qed

lemma DrawMeshWithGradient_entry_z:
  "DrawMeshWithGradient_entry r color1 color2 t =
     (let z0 = snd (snd (ProjectToScreen r (V0 t)));
          z1 = snd (snd (ProjectToScreen r (V1 t)));
          z2 = snd (snd (ProjectToScreen r (V2 t)));
          avgDepth = (z0 + z1 + z2) / 3;
          t' = (avgDepth + 1) / 2
      in if z0 < - 1 \<or> z1 < - 1 \<or> z2 < - 1 then None
         else Some \<lparr>tri = t, depth = avgDepth,
                color = (fst color1 * (1 - t') + fst color2 * t',
                         fst (snd color1) * (1 - t') + fst (snd color2) * t',
                         snd (snd color1) * (1 - t') + snd (snd color2) * t')\<rparr>)"
  by (simp add: DrawMeshWithGradient_entry_def Let_def split: prod.splits)

lemma behind_gradient:
  "DrawMeshWithGradient_triangles (NewRenderer 800 600)
      \<lparr>Vertices = [], Triangles =
         [\<lparr>V0 = \<lparr>X = - 1, Y = - 1, Z = - 10\<rparr>, V1 = \<lparr>X = 1, Y = - 1, Z = - 10\<rparr>,
           V2 = \<lparr>X = 0, Y = 2, Z = - 10\<rparr>\<rparr>]\<rparr> (1, 0, 0) (0, 0, 1)
   = [\<lparr>tri = \<lparr>V0 = \<lparr>X = - 1, Y = - 1, Z = - 10\<rparr>, V1 = \<lparr>X = 1, Y = - 1, Z = - 10\<rparr>,
           V2 = \<lparr>X = 0, Y = 2, Z = - 10\<rparr>\<rparr>, depth = 347 / 333,
        color = (- (7 / 333), 0, 340 / 333)\<rparr>]"
  by (simp add: DrawMeshWithGradient_triangles_def List.map_filter_simps
      DrawMeshWithGradient_entry_z ProjectToScreen_z_values Let_def)

subsection \<open>Insertion sort keeps the promise of the library sort\<close>

lemma mset_insert_by: "mset (insert_by lt x xs) = add_mset x (mset xs)"
  by (induction xs) simp_all

lemma mset_insertion_sort: "mset (insertion_sort lt xs) = mset xs"
  by (induction xs) (simp_all add: mset_insert_by)

lemma set_insert_by: "set (insert_by lt x xs) = insert x (set xs)"
proof -
  have "set_mset (mset (insert_by lt x xs)) = set_mset (add_mset x (mset xs))"
    by (simp only: mset_insert_by)
  then show ?thesis
    by simp
qed

lemma sorted_insert_by:
  assumes swo: "strict_weak_order lt"
    and sorted: "sorted_wrt (\<lambda>a b. \<not> lt b a) xs"
  shows "sorted_wrt (\<lambda>a b. \<not> lt b a) (insert_by lt x xs)"
  using sorted
proof (induction xs)
  case Nil
  then show ?case by simp
next
  case (Cons y ys)
  from swo have irrefl: "\<And>a. \<not> lt a a"
    and trans: "\<And>a b c. lt a b \<Longrightarrow> lt b c \<Longrightarrow> lt a c"
    unfolding strict_weak_order_def by blast+
  from Cons.prems have tail: "sorted_wrt (\<lambda>a b. \<not> lt b a) ys"
    and head: "\<And>z. z \<in> set ys \<Longrightarrow> \<not> lt z y"
    by simp_all
  show ?case
  proof (cases "lt x y")
    case True
    have "\<not> lt y x"
      using True irrefl trans by blast
    moreover have "\<not> lt z x" if "z \<in> set ys" for z
      using that True head trans by blast
    ultimately show ?thesis
      using True Cons.prems by simp
  next
    case False
    with head have "\<And>z. z \<in> set (insert_by lt x ys) \<Longrightarrow> \<not> lt z y"
      by (auto simp add: set_insert_by)
    with False Cons.IH [OF tail] show ?thesis
      by simp
  qed
qed

lemma sorted_insertion_sort:
  assumes "strict_weak_order lt"
  shows "sorted_wrt (\<lambda>a b. \<not> lt b a) (insertion_sort lt xs)"
  by (induction xs) (simp_all add: sorted_insert_by [OF assms])

lemma insertion_sort_contract: "sort_Slice_contract insertion_sort"
  by (simp add: sort_Slice_contract_def mset_insertion_sort sorted_insertion_sort)

subsection \<open>The comparison of the draw functions\<close>

lemma depth_greater_strict_weak_order:
  "strict_weak_order (\<lambda>ti tj :: triangleWithDepth. depth ti > depth tj)"
  by (auto simp add: strict_weak_order_def)

lemma sorted_by_depth:
  assumes "sort_Slice_contract sortSlice"
  shows "mset (sortSlice (\<lambda>ti tj. depth ti > depth tj) xs) = mset xs"
    and "sorted_wrt (\<lambda>a b. \<not> depth b > depth a) (sortSlice (\<lambda>ti tj. depth ti > depth tj) xs)"
  using assms depth_greater_strict_weak_order
  unfolding sort_Slice_contract_def by blast+

lemma sorted_desc_nth:
  fixes xs :: "triangleWithDepth list"
  assumes "sorted_wrt (\<lambda>a b. \<not> depth b > depth a) xs"
    and "i < length xs" and "j < length xs" and "depth (xs ! i) > depth (xs ! j)"
  shows "i < j"
proof (rule ccontr)
  assume "\<not> i < j"
  then consider "i = j" | "j < i"
    by linarith
  then show False
  proof cases
    case 1
    with assms(4) show False by simp
  next
    case 2
    with assms(1,2) have "\<not> depth (xs ! i) > depth (xs ! j)"
      by (simp add: sorted_wrt_iff_nth_less)
    with assms(4) show False by simp
  qed
qed

subsection \<open>Blocks of calls\<close>

lemma concat_block:
  assumes "\<And>x. length (f x) = n" and "i < length xs"
  shows "take n (drop (n * i) (concat (map f xs) @ rest)) = f (xs ! i)"
  using assms(2)
proof (induction xs arbitrary: i)
  case Nil
  then show ?case by simp
next
  case (Cons x xs)
  show ?case
  proof (cases i)
    case 0
    then show ?thesis
      by (simp add: assms(1))
  next
    case (Suc k)
    with Cons.prems have "k < length xs"
      by simp
    from Cons.IH [OF this] Suc show ?thesis
      by (simp add: assms(1))
  qed
qed

lemma block_nth:
  assumes "take n (drop k xs) = b" and "m < length b"
  shows "xs ! (k + m) = b ! m"
proof -
  from assms have "m < n" and "k + m < length xs"
    by auto
  have "b ! m = take n (drop k xs) ! m"
    by (simp add: assms(1))
  also have "\<dots> = xs ! (k + m)"
    using \<open>m < n\<close> \<open>k + m < length xs\<close> by simp
  finally show ?thesis
    by simp
qed

lemma drawFlat_fill_shape:
  "length (drawFlat_fill r td) = 5" "drawFlat_fill r td ! 4 = Fill"
  by (simp_all add: drawFlat_fill_def split: prod.splits)

lemma drawShaded_fill_shape:
  "length (drawShaded_fill r td) = 6" "drawShaded_fill r td ! 5 = Fill"
  by (simp_all add: drawShaded_fill_def split: prod.splits)

lemma drawFlat_calls:
  "drawFlat sortSlice r mesh col =
     (if Triangles mesh = [] then []
      else [Save, SetSourceRGB (fst col) (fst (snd col)) (snd (snd col))]
           @ concat (map (drawFlat_fill r)
               (sortSlice (\<lambda>ti tj. depth ti > depth tj) (drawFlat_triangles r mesh col)))
           @ [Restore])"
  by (simp add: drawFlat_def Let_def split: prod.splits)

lemma drawShaded_calls:
  "drawShaded sortSlice r mesh col =
     (if Triangles mesh = [] then []
      else [Save]
           @ concat (map (drawShaded_fill r)
               (sortSlice (\<lambda>ti tj. depth ti > depth tj) (drawShaded_triangles r mesh col)))
           @ [Restore])"
  by (simp add: drawShaded_def Let_def)

lemma no_triangles:
  "Triangles mesh = [] \<Longrightarrow> drawFlat_triangles r mesh col = []"
  "Triangles mesh = [] \<Longrightarrow> drawShaded_triangles r mesh col = []"
  by (simp_all add: drawFlat_triangles_def drawShaded_triangles_def List.map_filter_simps)

lemma drawFlat_block:
  assumes "sort_Slice_contract sortSlice"
    and "i < length (sortSlice (\<lambda>ti tj. depth ti > depth tj) (drawFlat_triangles r mesh col))"
  shows "take 5 (drop (2 + 5 * i) (drawFlat sortSlice r mesh col))
         = drawFlat_fill r
             (sortSlice (\<lambda>ti tj. depth ti > depth tj) (drawFlat_triangles r mesh col) ! i)"
proof -
  let ?order = "sortSlice (\<lambda>ti tj. depth ti > depth tj) (drawFlat_triangles r mesh col)"
  have ne: "Triangles mesh \<noteq> []"
  proof
    assume "Triangles mesh = []"
    then have "mset ?order = {#}"
      using sorted_by_depth(1) [OF assms(1)] by (simp add: no_triangles)
    with assms(2) show False
      by simp
  qed
  have "take 5 (drop (5 * i) (concat (map (drawFlat_fill r) ?order) @ [Restore]))
        = drawFlat_fill r (?order ! i)"
    using assms(2) by (intro concat_block) (simp_all add: drawFlat_fill_shape)
  with ne show ?thesis
    by (simp add: drawFlat_calls)
qed

lemma drawShaded_block:
  assumes "sort_Slice_contract sortSlice"
    and "i < length (sortSlice (\<lambda>ti tj. depth ti > depth tj) (drawShaded_triangles r mesh col))"
  shows "take 6 (drop (1 + 6 * i) (drawShaded sortSlice r mesh col))
         = drawShaded_fill r
             (sortSlice (\<lambda>ti tj. depth ti > depth tj) (drawShaded_triangles r mesh col) ! i)"
proof -
  let ?order = "sortSlice (\<lambda>ti tj. depth ti > depth tj) (drawShaded_triangles r mesh col)"
  have ne: "Triangles mesh \<noteq> []"
  proof
    assume "Triangles mesh = []"
    then have "mset ?order = {#}"
      using sorted_by_depth(1) [OF assms(1)] by (simp add: no_triangles)
    with assms(2) show False
      by simp
  qed
  have "take 6 (drop (6 * i) (concat (map (drawShaded_fill r) ?order) @ [Restore]))
        = drawShaded_fill r (?order ! i)"
    using assms(2) by (intro concat_block) (simp_all add: drawShaded_fill_shape)
  with ne show ?thesis
    by (simp add: drawShaded_calls)
qed

text \<open>
  Claim C4. \<open>drawFlat\<close> and \<open>drawShaded\<close> hand \<open>sort.Slice\<close> the comparison "deeper
  first". For any sort that keeps the promise of \<open>sort.Slice\<close>, the sorted slice is a
  permutation of the triangles that survived culling; the calls of the draw function hold,
  for the element at position \<open>i\<close> of the sorted slice, the block of calls that draws its
  path and ends with its \<open>Fill\<close> (at index \<open>2 + 5 * i + 4\<close> in Flat mode, \<open>1 + 6 * i + 5\<close> in
  Shaded mode); and whenever one element has a strictly greater average depth than
  another, the index of its \<open>Fill\<close> is strictly smaller.
\<close>

theorem painter_farthest_first:
  fixes sortSlice :: "(triangleWithDepth \<Rightarrow> triangleWithDepth \<Rightarrow> bool)
      \<Rightarrow> triangleWithDepth list \<Rightarrow> triangleWithDepth list"
  defines "flat \<equiv> \<lambda>r mesh col.
      sortSlice (\<lambda>ti tj. depth ti > depth tj) (drawFlat_triangles r mesh col)"
    and "shaded \<equiv> \<lambda>r mesh col.
      sortSlice (\<lambda>ti tj. depth ti > depth tj) (drawShaded_triangles r mesh col)"
  assumes "sort_Slice_contract sortSlice"
  shows
    "mset (flat r mesh col) = mset (drawFlat_triangles r mesh col) \<and>
     (\<forall>i < length (flat r mesh col).
        take 5 (drop (2 + 5 * i) (drawFlat sortSlice r mesh col))
          = drawFlat_fill r (flat r mesh col ! i) \<and>
        drawFlat sortSlice r mesh col ! (2 + 5 * i + 4) = Fill) \<and>
     (\<forall>i < length (flat r mesh col). \<forall>j < length (flat r mesh col).
        depth (flat r mesh col ! i) > depth (flat r mesh col ! j) \<longrightarrow>
          2 + 5 * i + 4 < 2 + 5 * j + 4) \<and>
     mset (shaded r mesh col) = mset (drawShaded_triangles r mesh col) \<and>
     (\<forall>i < length (shaded r mesh col).
        take 6 (drop (1 + 6 * i) (drawShaded sortSlice r mesh col))
          = drawShaded_fill r (shaded r mesh col ! i) \<and>
        drawShaded sortSlice r mesh col ! (1 + 6 * i + 5) = Fill) \<and>
     (\<forall>i < length (shaded r mesh col). \<forall>j < length (shaded r mesh col).
        depth (shaded r mesh col ! i) > depth (shaded r mesh col ! j) \<longrightarrow>
          1 + 6 * i + 5 < 1 + 6 * j + 5)"
proof -
  note c = assms(3)
  have f1: "mset (flat r mesh col) = mset (drawFlat_triangles r mesh col)"
    unfolding flat_def by (rule sorted_by_depth(1) [OF c])
  have s1: "mset (shaded r mesh col) = mset (drawShaded_triangles r mesh col)"
    unfolding shaded_def by (rule sorted_by_depth(1) [OF c])
  have f2: "take 5 (drop (2 + 5 * i) (drawFlat sortSlice r mesh col))
          = drawFlat_fill r (flat r mesh col ! i) \<and>
        drawFlat sortSlice r mesh col ! (2 + 5 * i + 4) = Fill"
    if "i < length (flat r mesh col)" for i
  proof -
    from that have blk: "take 5 (drop (2 + 5 * i) (drawFlat sortSlice r mesh col))
          = drawFlat_fill r (flat r mesh col ! i)"
      unfolding flat_def by (rule drawFlat_block [OF c])
    from block_nth [OF blk, of 4] have "drawFlat sortSlice r mesh col ! (2 + 5 * i + 4) = Fill"
      by (simp add: drawFlat_fill_shape)
    with blk show ?thesis
      by simp
  qed
  have s2: "take 6 (drop (1 + 6 * i) (drawShaded sortSlice r mesh col))
          = drawShaded_fill r (shaded r mesh col ! i) \<and>
        drawShaded sortSlice r mesh col ! (1 + 6 * i + 5) = Fill"
    if "i < length (shaded r mesh col)" for i
  proof -
    from that have blk: "take 6 (drop (1 + 6 * i) (drawShaded sortSlice r mesh col))
          = drawShaded_fill r (shaded r mesh col ! i)"
      unfolding shaded_def by (rule drawShaded_block [OF c])
    from block_nth [OF blk, of 5] have "drawShaded sortSlice r mesh col ! (1 + 6 * i + 5) = Fill"
      by (simp add: drawShaded_fill_shape)
    with blk show ?thesis
      by simp
  qed
  have f3: "2 + 5 * i + 4 < 2 + 5 * j + 4"
    if "i < length (flat r mesh col)" "j < length (flat r mesh col)"
      "depth (flat r mesh col ! i) > depth (flat r mesh col ! j)" for i j
  proof -
    have "sorted_wrt (\<lambda>a b. \<not> depth b > depth a) (flat r mesh col)"
      unfolding flat_def by (rule sorted_by_depth(2) [OF c])
    from sorted_desc_nth [OF this that] show ?thesis
      by simp
  qed
  have s3: "1 + 6 * i + 5 < 1 + 6 * j + 5"
    if "i < length (shaded r mesh col)" "j < length (shaded r mesh col)"
      "depth (shaded r mesh col ! i) > depth (shaded r mesh col ! j)" for i j
  proof -
    have "sorted_wrt (\<lambda>a b. \<not> depth b > depth a) (shaded r mesh col)"
      unfolding shaded_def by (rule sorted_by_depth(2) [OF c])
    from sorted_desc_nth [OF this that] show ?thesis
      by simp
  qed
  from f1 f2 f3 s1 s2 s3 show ?thesis
    by blast
qed

theorem painter_farthest_first_witness:
  "sort_Slice_contract insertion_sort \<and>
   insertion_sort (\<lambda>ti tj. depth ti > depth tj)
     (drawFlat_triangles (NewRenderer 800 600)
        \<lparr>Vertices = [], Triangles =
           [\<lparr>V0 = \<lparr>X = - 1, Y = - 1, Z = 0\<rparr>, V1 = \<lparr>X = 1, Y = - 1, Z = 0\<rparr>,
             V2 = \<lparr>X = 0, Y = 2, Z = 0\<rparr>\<rparr>,
            \<lparr>V0 = \<lparr>X = - 1, Y = - 1, Z = 5\<rparr>, V1 = \<lparr>X = 1, Y = - 1, Z = 5\<rparr>,
             V2 = \<lparr>X = 0, Y = 2, Z = 5\<rparr>\<rparr>]\<rparr> (1, 0, 0))
     = [\<lparr>tri = \<lparr>V0 = \<lparr>X = - 1, Y = - 1, Z = 5\<rparr>, V1 = \<lparr>X = 1, Y = - 1, Z = 5\<rparr>,
           V2 = \<lparr>X = 0, Y = 2, Z = 5\<rparr>\<rparr>, depth = 109 / 111, color = (1, 0, 0)\<rparr>,
        \<lparr>tri = \<lparr>V0 = \<lparr>X = - 1, Y = - 1, Z = 0\<rparr>, V1 = \<lparr>X = 1, Y = - 1, Z = 0\<rparr>,
           V2 = \<lparr>X = 0, Y = 2, Z = 0\<rparr>\<rparr>, depth = 961 / 999, color = (1, 0, 0)\<rparr>] \<and>
   (109 / 111 :: real) > 961 / 999 \<and>
   take 5 (drop 2 (drawFlat insertion_sort (NewRenderer 800 600)
        \<lparr>Vertices = [], Triangles =
           [\<lparr>V0 = \<lparr>X = - 1, Y = - 1, Z = 0\<rparr>, V1 = \<lparr>X = 1, Y = - 1, Z = 0\<rparr>,
             V2 = \<lparr>X = 0, Y = 2, Z = 0\<rparr>\<rparr>,
            \<lparr>V0 = \<lparr>X = - 1, Y = - 1, Z = 5\<rparr>, V1 = \<lparr>X = 1, Y = - 1, Z = 5\<rparr>,
             V2 = \<lparr>X = 0, Y = 2, Z = 5\<rparr>\<rparr>]\<rparr> (1, 0, 0)))
     = drawFlat_fill (NewRenderer 800 600)
         \<lparr>tri = \<lparr>V0 = \<lparr>X = - 1, Y = - 1, Z = 5\<rparr>, V1 = \<lparr>X = 1, Y = - 1, Z = 5\<rparr>,
            V2 = \<lparr>X = 0, Y = 2, Z = 5\<rparr>\<rparr>, depth = 109 / 111, color = (1, 0, 0)\<rparr> \<and>
   drawFlat insertion_sort (NewRenderer 800 600)
        \<lparr>Vertices = [], Triangles =
           [\<lparr>V0 = \<lparr>X = - 1, Y = - 1, Z = 0\<rparr>, V1 = \<lparr>X = 1, Y = - 1, Z = 0\<rparr>,
             V2 = \<lparr>X = 0, Y = 2, Z = 0\<rparr>\<rparr>,
            \<lparr>V0 = \<lparr>X = - 1, Y = - 1, Z = 5\<rparr>, V1 = \<lparr>X = 1, Y = - 1, Z = 5\<rparr>,
             V2 = \<lparr>X = 0, Y = 2, Z = 5\<rparr>\<rparr>]\<rparr> (1, 0, 0) ! 6 = Fill \<and>
   take 5 (drop 7 (drawFlat insertion_sort (NewRenderer 800 600)
        \<lparr>Vertices = [], Triangles =
           [\<lparr>V0 = \<lparr>X = - 1, Y = - 1, Z = 0\<rparr>, V1 = \<lparr>X = 1, Y = - 1, Z = 0\<rparr>,
             V2 = \<lparr>X = 0, Y = 2, Z = 0\<rparr>\<rparr>,
            \<lparr>V0 = \<lparr>X = - 1, Y = - 1, Z = 5\<rparr>, V1 = \<lparr>X = 1, Y = - 1, Z = 5\<rparr>,
             V2 = \<lparr>X = 0, Y = 2, Z = 5\<rparr>\<rparr>]\<rparr> (1, 0, 0)))
     = drawFlat_fill (NewRenderer 800 600)
         \<lparr>tri = \<lparr>V0 = \<lparr>X = - 1, Y = - 1, Z = 0\<rparr>, V1 = \<lparr>X = 1, Y = - 1, Z = 0\<rparr>,
            V2 = \<lparr>X = 0, Y = 2, Z = 0\<rparr>\<rparr>, depth = 961 / 999, color = (1, 0, 0)\<rparr> \<and>
   drawFlat insertion_sort (NewRenderer 800 600)
        \<lparr>Vertices = [], Triangles =
           [\<lparr>V0 = \<lparr>X = - 1, Y = - 1, Z = 0\<rparr>, V1 = \<lparr>X = 1, Y = - 1, Z = 0\<rparr>,
             V2 = \<lparr>X = 0, Y = 2, Z = 0\<rparr>\<rparr>,
            \<lparr>V0 = \<lparr>X = - 1, Y = - 1, Z = 5\<rparr>, V1 = \<lparr>X = 1, Y = - 1, Z = 5\<rparr>,
             V2 = \<lparr>X = 0, Y = 2, Z = 5\<rparr>\<rparr>]\<rparr> (1, 0, 0) ! 11 = Fill"
proof -
  let ?near = "\<lparr>V0 = \<lparr>X = - 1, Y = - 1, Z = 0\<rparr>, V1 = \<lparr>X = 1, Y = - 1, Z = 0\<rparr>,
           V2 = \<lparr>X = 0, Y = 2, Z = 0\<rparr>\<rparr>"
  let ?far = "\<lparr>V0 = \<lparr>X = - 1, Y = - 1, Z = 5\<rparr>, V1 = \<lparr>X = 1, Y = - 1, Z = 5\<rparr>,
           V2 = \<lparr>X = 0, Y = 2, Z = 5\<rparr>\<rparr>"
  let ?mesh = "\<lparr>Vertices = [], Triangles = [?near, ?far]\<rparr>"
  let ?r = "NewRenderer 800 600"
  let ?n = "\<lparr>tri = ?near, depth = 961 / 999, color = (1, 0, 0)\<rparr>"
  let ?f = "\<lparr>tri = ?far, depth = 109 / 111, color = (1, 0, 0)\<rparr>"
  let ?T = "drawFlat insertion_sort ?r ?mesh (1, 0, 0)"
  have collected: "drawFlat_triangles ?r ?mesh (1, 0, 0) = [?n, ?f]"
    by (simp add: drawFlat_triangles_def List.map_filter_simps drawFlat_entry_z
        ProjectToScreen_z_values)
  have order: "insertion_sort (\<lambda>ti tj. depth ti > depth tj) [?n, ?f] = [?f, ?n]"
    by simp
  note main = painter_farthest_first [OF insertion_sort_contract, of ?r ?mesh "(1, 0, 0)"]
  from main have blocks: "\<forall>i < length [?f, ?n].
      take 5 (drop (2 + 5 * i) ?T) = drawFlat_fill ?r ([?f, ?n] ! i) \<and> ?T ! (2 + 5 * i + 4) = Fill"
    unfolding collected order by blast
  from blocks have b0: "take 5 (drop (2 + 5 * 0) ?T) = drawFlat_fill ?r ([?f, ?n] ! 0) \<and>
      ?T ! (2 + 5 * 0 + 4) = Fill"
    by (rule allE [where x = 0]) simp
  from blocks have b1: "take 5 (drop (2 + 5 * 1) ?T) = drawFlat_fill ?r ([?f, ?n] ! 1) \<and>
      ?T ! (2 + 5 * 1 + 4) = Fill"
    by (rule allE [where x = 1]) simp
  have gt: "(109 / 111 :: real) > 961 / 999"
    by simp
  from b0 have b0': "take 5 (drop 2 ?T) = drawFlat_fill ?r ?f \<and> ?T ! 6 = Fill"
    by simp
  from b1 have b1': "take 5 (drop 7 ?T) = drawFlat_fill ?r ?n \<and> ?T ! 11 = Fill"
    by simp
  from insertion_sort_contract order gt b0' b1' show ?thesis
    unfolding collected by blast
qed

text \<open>
  Claim C1, evaluated on a triangle that lies behind the default camera. Its three
  projected depths are 347/333, above 1. \<open>drawWireframe\<close> culls it: no path and no stroke
  are issued. The first loops of \<open>drawFlat\<close>, \<open>drawShaded\<close> and \<open>DrawMeshWithGradient\<close>
  test the depths against \<open>-1\<close> alone and keep it for filling.
\<close>

theorem fill_modes_keep_triangle_with_depth_above_one:
  "snd (snd (ProjectToScreen (NewRenderer 800 600) \<lparr>X = - 1, Y = - 1, Z = - 10\<rparr>)) = 347 / 333 \<and>
   snd (snd (ProjectToScreen (NewRenderer 800 600) \<lparr>X = 1, Y = - 1, Z = - 10\<rparr>)) = 347 / 333 \<and>
   snd (snd (ProjectToScreen (NewRenderer 800 600) \<lparr>X = 0, Y = 2, Z = - 10\<rparr>)) = 347 / 333 \<and>
   (347 / 333 :: real) > 1 \<and>
   drawWireframe (NewRenderer 800 600)
      \<lparr>Vertices = [], Triangles =
         [\<lparr>V0 = \<lparr>X = - 1, Y = - 1, Z = - 10\<rparr>, V1 = \<lparr>X = 1, Y = - 1, Z = - 10\<rparr>,
           V2 = \<lparr>X = 0, Y = 2, Z = - 10\<rparr>\<rparr>]\<rparr> (1, 0, 0)
     = [Save, SetSourceRGB 1 0 0, SetLineWidth (3 / 2), SetLineJoinRound, Restore] \<and>
   drawFlat_triangles (NewRenderer 800 600)
      \<lparr>Vertices = [], Triangles =
         [\<lparr>V0 = \<lparr>X = - 1, Y = - 1, Z = - 10\<rparr>, V1 = \<lparr>X = 1, Y = - 1, Z = - 10\<rparr>,
           V2 = \<lparr>X = 0, Y = 2, Z = - 10\<rparr>\<rparr>]\<rparr> (1, 0, 0)
     = [\<lparr>tri = \<lparr>V0 = \<lparr>X = - 1, Y = - 1, Z = - 10\<rparr>, V1 = \<lparr>X = 1, Y = - 1, Z = - 10\<rparr>,
           V2 = \<lparr>X = 0, Y = 2, Z = - 10\<rparr>\<rparr>, depth = 347 / 333, color = (1, 0, 0)\<rparr>] \<and>
   drawShaded_triangles (NewRenderer 800 600)
      \<lparr>Vertices = [], Triangles =
         [\<lparr>V0 = \<lparr>X = - 1, Y = - 1, Z = - 10\<rparr>, V1 = \<lparr>X = 1, Y = - 1, Z = - 10\<rparr>,
           V2 = \<lparr>X = 0, Y = 2, Z = - 10\<rparr>\<rparr>]\<rparr> (1, 0, 0)
     = [\<lparr>tri = \<lparr>V0 = \<lparr>X = - 1, Y = - 1, Z = - 10\<rparr>, V1 = \<lparr>X = 1, Y = - 1, Z = - 10\<rparr>,
           V2 = \<lparr>X = 0, Y = 2, Z = - 10\<rparr>\<rparr>, depth = 347 / 333, color = (1, 0, 0)\<rparr>] \<and>
   DrawMeshWithGradient_triangles (NewRenderer 800 600)
      \<lparr>Vertices = [], Triangles =
         [\<lparr>V0 = \<lparr>X = - 1, Y = - 1, Z = - 10\<rparr>, V1 = \<lparr>X = 1, Y = - 1, Z = - 10\<rparr>,
           V2 = \<lparr>X = 0, Y = 2, Z = - 10\<rparr>\<rparr>]\<rparr> (1, 0, 0) (0, 0, 1)
     = [\<lparr>tri = \<lparr>V0 = \<lparr>X = - 1, Y = - 1, Z = - 10\<rparr>, V1 = \<lparr>X = 1, Y = - 1, Z = - 10\<rparr>,
           V2 = \<lparr>X = 0, Y = 2, Z = - 10\<rparr>\<rparr>, depth = 347 / 333,
         color = (- (7 / 333), 0, 340 / 333)\<rparr>]"
  using behind_wire behind_flat behind_shaded behind_gradient
  by (simp add: ProjectToScreen_z_values)

section \<open>Properties of the animation pipeline\<close>

subsection \<open>Every multi-worker run ends\<close>

lemma rank_update:
  assumes "i < length ws"
  shows "sum_list (map worker_rank (ws[i := x])) + worker_rank (ws ! i)
         = sum_list (map worker_rank ws) + worker_rank x"
  using assms
proof (induction ws arbitrary: i)
  case Nil
  then show ?case by simp
next
  case (Cons a ws)
  then show ?case
    by (cases i) simp_all
qed

lemma enabled_mem:
  "a \<in> set (enabled s) \<longleftrightarrow>
     (a = SendJob \<and> pending s \<noteq> []) \<or>
     (a = CloseJobs \<and> pending s = [] \<and> \<not> closed s) \<or>
     (\<exists>i < length (workers s). a \<in> set (worker_actions s i))"
  by (auto simp add: enabled_def)

lemma worker_actions_mem:
  "a \<in> set (worker_actions s i) \<longleftrightarrow>
     (a = RecvJob i \<and> workers s ! i = Idle \<and> jobs s \<noteq> []) \<or>
     (a = ExitLoop i \<and> workers s ! i = Idle \<and> jobs s = [] \<and> closed s) \<or>
     (\<exists>frame. a = RenderFrame i \<and> workers s ! i = Got frame) \<or>
     (\<exists>frame img. a = SaveFrame i \<and> workers s ! i = Rendered frame img)"
  by (cases "workers s ! i") (simp_all add: worker_actions_def)

lemma enabled_cases:
  assumes "a \<in> set (enabled s)"
  shows "(a = SendJob \<and> pending s \<noteq> []) \<or>
         (a = CloseJobs \<and> pending s = [] \<and> \<not> closed s) \<or>
         (\<exists>i < length (workers s).
            (a = RecvJob i \<and> workers s ! i = Idle \<and> jobs s \<noteq> []) \<or>
            (a = ExitLoop i \<and> workers s ! i = Idle \<and> jobs s = [] \<and> closed s) \<or>
            (\<exists>frame. a = RenderFrame i \<and> workers s ! i = Got frame) \<or>
            (\<exists>frame img. a = SaveFrame i \<and> workers s ! i = Rendered frame img))"
  using assms unfolding enabled_mem worker_actions_mem .

lemma step_decreases:
  assumes "a \<in> set (enabled s)"
  shows "mt_measure (step ag totalFrames a s) < mt_measure s"
proof -
  from enabled_cases [OF assms] show ?thesis
  proof (elim disjE conjE exE)
    assume "a = SendJob" "pending s \<noteq> []"
    then show ?thesis
      by (cases "pending s") (simp_all add: step_def mt_measure_def)
  next
    assume "a = CloseJobs" "\<not> closed s"
    then show ?thesis
      by (simp add: step_def mt_measure_def)
  next
    fix i assume i: "i < length (workers s)"
      and "a = RecvJob i" "workers s ! i = Idle" "jobs s \<noteq> []"
    with rank_update [OF i, of "Got (hd (jobs s))"] show ?thesis
      by (cases "jobs s") (simp_all add: step_def mt_measure_def)
  next
    fix i assume i: "i < length (workers s)"
      and "a = ExitLoop i" "workers s ! i = Idle"
    with rank_update [OF i, of Stopped] show ?thesis
      by (simp add: step_def mt_measure_def)
  next
    fix i frame assume i: "i < length (workers s)"
      and a: "a = RenderFrame i" "workers s ! i = Got frame"
    let ?img = "Renderer_cb ag (NewRenderer (Width_cfg (Config ag)) (Height_cfg (Config ag)))
                  frame (frameTime totalFrames frame)"
    from a rank_update [OF i, of "Rendered frame ?img"] show ?thesis
      by (simp add: step_def mt_measure_def Let_def)
  next
    fix i frame img assume i: "i < length (workers s)"
      and a: "a = SaveFrame i" "workers s ! i = Rendered frame img"
    with rank_update [OF i, of Idle] show ?thesis
      by (simp add: step_def mt_measure_def SaveToPNG_def)
  qed
qed

termination mt_run
proof (relation "measure (\<lambda>(sch, ag, totalFrames, k, s). mt_measure s)")
  show "wf (measure (\<lambda>(sch, ag, totalFrames, k, s). mt_measure s))"
    by simp
next
  fix sch :: "nat \<Rightarrow> nat" and ag :: "'a AnimationGenerator" and totalFrames :: int
    and k :: nat and s :: "'a mt_state"
  assume "enabled s \<noteq> []"
  then have "enabled s ! (sch k mod length (enabled s)) \<in> set (enabled s)"
    by simp
  then show "((sch, ag, totalFrames, Suc k,
              step ag totalFrames (enabled s ! (sch k mod length (enabled s))) s),
             (sch, ag, totalFrames, k, s))
            \<in> measure (\<lambda>(sch, ag, totalFrames, k, s). mt_measure s)"
    by (simp add: step_decreases)
qed

end
